theory Spec2Isabelle
  imports Complex_Main "HOL-Library.AList"
begin

section \<open>JSON documents and the Python operations on them\<close>

text \<open>
  The workbook's \<^verbatim>\<open>props\<close> is the JSON document that \<^verbatim>\<open>json.loads\<close> or a dict
  literal produces: a tree of dicts (insertion ordered, string keys), lists, strings,
  numbers, booleans and \<^verbatim>\<open>None\<close>. It is modelled as a tree value, so two places of
  the document never share one mutable object.
\<close>

datatype json =
    JNull
  | JBool bool
  | JInt int
  | JFloat rat
  | JStr string
  | JList "json list"
  | JObj "(string \<times> json) list"

datatype py_error =
    KeyError
  | TypeError
  | IndexError
  | AttributeError
  | ValueError
  | HTTPError
  | GenericException
  | OtherError string

type_synonym 'a res = "py_error + 'a"

datatype key = KStr string | KIdx nat

subsection \<open>Strings\<close>

fun str_find :: "string \<Rightarrow> string \<Rightarrow> int" where
  "str_find [] sub = (if sub = [] then 0 else - 1)"
| "str_find (c # cs) sub =
     (if take (length sub) (c # cs) = sub then 0
      else (let r = str_find cs sub in if r < 0 then - 1 else r + 1))"

definition slice_to :: "string \<Rightarrow> int \<Rightarrow> string" where
  \<comment> \<open>\<^verbatim>\<open>s[:k]\<close>: a negative bound counts from the end\<close>
  "slice_to s k = (if 0 \<le> k then take (nat k) s else take (nat (int (length s) + k)) s)"

definition is_upper :: "char \<Rightarrow> bool" where
  "is_upper c = (65 \<le> (of_char c :: nat) \<and> (of_char c :: nat) \<le> 90)"

definition is_lower :: "char \<Rightarrow> bool" where
  "is_lower c = (97 \<le> (of_char c :: nat) \<and> (of_char c :: nat) \<le> 122)"

definition lower_char :: "char \<Rightarrow> char" where
  "lower_char c = (if is_upper c then char_of ((of_char c :: nat) + 32) else c)"

definition upper_char :: "char \<Rightarrow> char" where
  "upper_char c = (if is_lower c then char_of ((of_char c :: nat) - 32) else c)"

definition lower :: "string \<Rightarrow> string" where
  "lower s = map lower_char s"

fun title_from :: "bool \<Rightarrow> string \<Rightarrow> string" where
  \<comment> \<open>\<^verbatim>\<open>str.title()\<close>; the flag says whether the previous character was a letter\<close>
  "title_from prev [] = []"
| "title_from prev (c # cs) =
     (if is_upper c \<or> is_lower c
      then (if prev then lower_char c else upper_char c) # title_from True cs
      else c # title_from False cs)"

definition title_case :: "string \<Rightarrow> string" where
  "title_case s = title_from False s"

definition digit_char :: "nat \<Rightarrow> char" where
  "digit_char d = ''0123456789abcdef'' ! d"

fun str_of_nat :: "nat \<Rightarrow> string" where
  "str_of_nat n = (if n < 10 then [digit_char n] else str_of_nat (n div 10) @ [digit_char (n mod 10)])"

fun hex_of_nat :: "nat \<Rightarrow> string" where
  "hex_of_nat n = (if n < 16 then [digit_char n] else hex_of_nat (n div 16) @ [digit_char (n mod 16)])"

declare str_of_nat.simps [simp del] hex_of_nat.simps [simp del]

definition percent_0x :: "nat \<Rightarrow> nat \<Rightarrow> string" where
  \<comment> \<open>\<^verbatim>\<open>'%0wx' % n\<close>: lower-case hexadecimal, zero-padded on the left to width w\<close>
  "percent_0x w n = replicate (w - length (hex_of_nat n)) CHR ''0'' @ hex_of_nat n"

definition is_hex_digit :: "char \<Rightarrow> bool" where
  "is_hex_digit c = (c \<in> set ''0123456789abcdef'')"

subsection \<open>Subscripting, membership, length, truth value, equality\<close>

fun getitem :: "json \<Rightarrow> key \<Rightarrow> json res" where
  "getitem (JObj kvs) (KStr k) = (case map_of kvs k of None \<Rightarrow> Inl KeyError | Some v \<Rightarrow> Inr v)"
| "getitem (JObj kvs) (KIdx i) = Inl KeyError"
| "getitem (JList xs) (KIdx i) = (if i < length xs then Inr (xs ! i) else Inl IndexError)"
| "getitem (JList xs) (KStr k) = Inl TypeError"
| "getitem (JStr s) (KIdx i) = (if i < length s then Inr (JStr [s ! i]) else Inl IndexError)"
| "getitem (JStr s) (KStr k) = Inl TypeError"
| "getitem JNull k = Inl TypeError"
| "getitem (JBool b) k = Inl TypeError"
| "getitem (JInt n) k = Inl TypeError"
| "getitem (JFloat r) k = Inl TypeError"

fun get_path :: "json \<Rightarrow> key list \<Rightarrow> json res" where
  \<comment> \<open>\<^verbatim>\<open>x[k1][k2]...[kn]\<close>\<close>
  "get_path x [] = Inr x"
| "get_path x (k # ks) = (case getitem x k of Inl e \<Rightarrow> Inl e | Inr y \<Rightarrow> get_path y ks)"

fun setitem :: "string \<Rightarrow> json \<Rightarrow> json \<Rightarrow> json res" where
  \<comment> \<open>\<^verbatim>\<open>x[k] = v\<close> for a string key k: the object x after the assignment\<close>
  "setitem k v (JObj kvs) = Inr (JObj (AList.update k v kvs))"
| "setitem k v x = Inl TypeError"

fun append :: "json \<Rightarrow> json \<Rightarrow> json res" where
  \<comment> \<open>\<^verbatim>\<open>x.append(v)\<close>: only a list has the method\<close>
  "append v (JList xs) = Inr (JList (xs @ [v]))"
| "append v x = Inl AttributeError"

fun put_child :: "json \<Rightarrow> key \<Rightarrow> json \<Rightarrow> json" where
  \<comment> \<open>the container x once its child at k has been mutated into y; indexing a
      string yields a temporary, so the string itself stays as it is\<close>
  "put_child (JObj kvs) (KStr k) y = JObj (AList.update k y kvs)"
| "put_child (JList xs) (KIdx i) y = JList (xs[i := y])"
| "put_child x k y = x"

fun modify_at :: "key list \<Rightarrow> (json \<Rightarrow> json res) \<Rightarrow> json \<Rightarrow> json res" where
  \<comment> \<open>\<^verbatim>\<open>x[k1]...[kn].mutate()\<close>: walk down the path, mutate the object found there\<close>
  "modify_at [] f x = f x"
| "modify_at (k # ks) f x =
     (case getitem x k of
        Inl e \<Rightarrow> Inl e
      | Inr y \<Rightarrow> (case modify_at ks f y of Inl e \<Rightarrow> Inl e | Inr y' \<Rightarrow> Inr (put_child x k y')))"

fun py_len :: "json \<Rightarrow> nat res" where
  "py_len (JList xs) = Inr (length xs)"
| "py_len (JObj kvs) = Inr (length (remdups (map fst kvs)))"
| "py_len (JStr s) = Inr (length s)"
| "py_len x = Inl TypeError"

fun truthy :: "json \<Rightarrow> bool" where
  "truthy JNull = False"
| "truthy (JBool b) = b"
| "truthy (JInt n) = (n \<noteq> 0)"
| "truthy (JFloat r) = (r \<noteq> 0)"
| "truthy (JStr s) = (s \<noteq> [])"
| "truthy (JList xs) = (xs \<noteq> [])"
| "truthy (JObj kvs) = (kvs \<noteq> [])"

fun py_in :: "string \<Rightarrow> json \<Rightarrow> bool res" where
  \<comment> \<open>\<^verbatim>\<open>k in x\<close> for a string k: key of a dict, element of a list, substring of a string\<close>
  "py_in k (JObj kvs) = Inr (k \<in> set (map fst kvs))"
| "py_in k (JList xs) = Inr (JStr k \<in> set xs)"
| "py_in k (JStr s) = Inr (0 \<le> str_find s k)"
| "py_in k x = Inl TypeError"

fun py_iter :: "json \<Rightarrow> json list res" where
  \<comment> \<open>the values a \<^verbatim>\<open>for\<close> loop over x visits\<close>
  "py_iter (JList xs) = Inr xs"
| "py_iter (JObj kvs) = Inr (map JStr (remdups (map fst kvs)))"
| "py_iter (JStr s) = Inr (map (\<lambda>c. JStr [c]) s)"
| "py_iter x = Inl TypeError"

fun py_eq :: "json \<Rightarrow> json \<Rightarrow> bool"
  and py_eq_list :: "json list \<Rightarrow> json list \<Rightarrow> bool"
  and py_sub_items :: "(string \<times> json) list \<Rightarrow> (string \<times> json) list \<Rightarrow> bool" where
  \<comment> \<open>\<^verbatim>\<open>a == b\<close>: numbers and booleans compare by value, dicts regardless of order\<close>
  "py_eq JNull b = (b = JNull)"
| "py_eq (JStr s) b = (b = JStr s)"
| "py_eq (JBool x) b =
     (case b of JBool y \<Rightarrow> x = y | JInt i \<Rightarrow> i = (if x then 1 else 0)
      | JFloat r \<Rightarrow> r = (if x then 1 else 0) | _ \<Rightarrow> False)"
| "py_eq (JInt x) b =
     (case b of JBool y \<Rightarrow> x = (if y then 1 else 0) | JInt i \<Rightarrow> i = x
      | JFloat r \<Rightarrow> r = of_int x | _ \<Rightarrow> False)"
| "py_eq (JFloat x) b =
     (case b of JBool y \<Rightarrow> x = (if y then 1 else 0) | JInt i \<Rightarrow> x = of_int i
      | JFloat r \<Rightarrow> r = x | _ \<Rightarrow> False)"
| "py_eq (JList xs) b = (case b of JList ys \<Rightarrow> py_eq_list xs ys | _ \<Rightarrow> False)"
| "py_eq (JObj kvs) b =
     (case b of
        JObj kws \<Rightarrow> length (remdups (map fst kvs)) = length (remdups (map fst kws))
                    \<and> py_sub_items kvs kws
      | _ \<Rightarrow> False)"
| "py_eq_list [] ys = (ys = [])"
| "py_eq_list (x # xs) ys = (case ys of [] \<Rightarrow> False | y # ys' \<Rightarrow> py_eq x y \<and> py_eq_list xs ys')"
| "py_sub_items [] kws = True"
| "py_sub_items ((k, v) # kvs) kws =
     ((case map_of kws k of None \<Rightarrow> False | Some w \<Rightarrow> py_eq v w) \<and> py_sub_items kvs kws)"

datatype pyobj = Str string | ExcClass py_error

fun str_add :: "string \<Rightarrow> pyobj \<Rightarrow> string res" where
  \<comment> \<open>\<^verbatim>\<open>s + x\<close> with a str on the left: anything but a str on the right raises TypeError\<close>
  "str_add s (Str t) = Inr (s @ t)"
| "str_add s (ExcClass c) = Inl TypeError"

fun str_operand :: "json \<Rightarrow> string res" where
  \<comment> \<open>a JSON value used as an operand of \<^verbatim>\<open>+\<close> between strings\<close>
  "str_operand (JStr t) = Inr t"
| "str_operand x = Inl TypeError"

section \<open>The server, the objects and the effects of a call\<close>

text \<open>
  A value sent in a request is a string, a JSON value taken from a response, or the
  text \<^verbatim>\<open>json.dumps(doc)\<close> of a document, kept symbolic.
\<close>

datatype arg = AStr string | AJson json | ADumps json

datatype request =
    Post string "(string \<times> arg) list"
  | Get string "(string \<times> arg) list"
  | UpdateItem json "(string \<times> arg) list" arg

text \<open>
  \<open>Post\<close> and \<open>Get\<close> are \<^verbatim>\<open>gis._portal.con.post\<close> and \<^verbatim>\<open>gis._portal.con.get\<close>;
  \<open>UpdateItem\<close> is \<^verbatim>\<open>gis._portal.update_item(item_id, item_props, data)\<close>. The server
  is a parameter: it answers a request with a JSON value or raises.
\<close>

type_synonym server = "request \<Rightarrow> json res"

record gis =
  gis_url :: string
  portal_url :: string
  portal_id :: string
  username :: string

record item =
  item_gis :: gis
  item_title :: string
  item_name :: string
  item_id :: string

text \<open>
  A feature layer item; \<open>lyr_extents\<close> holds, for each sublayer, the outcome of
  \<^verbatim>\<open>json.loads(lyr.layers[sublayer].properties.extent.__repr__())\<close>.
\<close>

record feature_layer =
  lyr_title :: string
  lyr_url :: string
  lyr_id :: string
  lyr_extents :: "json res list"

record workbook =
  gis_conn :: gis
  title :: string
  agol :: bool
  workbookID :: string
  workspaceID :: json
  workspaceURL :: string
  props :: json

record io =
  sent :: "request list"
  printed :: "string list"

record world = io +
  self :: workbook

definition py_return :: "'a \<Rightarrow> 's \<Rightarrow> 'a res \<times> 's" where
  "py_return v s = (Inr v, s)"

definition py_raise :: "py_error \<Rightarrow> 's \<Rightarrow> 'a res \<times> 's" where
  "py_raise e s = (Inl e, s)"

definition lift :: "'a res \<Rightarrow> 's \<Rightarrow> 'a res \<times> 's" where
  "lift r s = (r, s)"

definition py_bind :: "('s \<Rightarrow> 'a res \<times> 's) \<Rightarrow> ('a \<Rightarrow> 's \<Rightarrow> 'b res \<times> 's) \<Rightarrow> 's \<Rightarrow> 'b res \<times> 's" where
  "py_bind m f s = (case m s of (Inl e, s') \<Rightarrow> (Inl e, s') | (Inr v, s') \<Rightarrow> f v s')"

definition try_except :: "('s \<Rightarrow> 'a res \<times> 's) \<Rightarrow> (py_error \<Rightarrow> 's \<Rightarrow> 'a res \<times> 's) \<Rightarrow> 's \<Rightarrow> 'a res \<times> 's" where
  "try_except m h s = (case m s of (Inl e, s') \<Rightarrow> h e s' | (Inr v, s') \<Rightarrow> (Inr v, s'))"

definition res_bind :: "'a res \<Rightarrow> ('a \<Rightarrow> 'b res) \<Rightarrow> 'b res" where
  "res_bind r f = (case r of Inl e \<Rightarrow> Inl e | Inr v \<Rightarrow> f v)"

definition print_line :: "string \<Rightarrow> 'z io_scheme \<Rightarrow> unit res \<times> 'z io_scheme" where
  "print_line msg s = (Inr (), s\<lparr>printed := printed s @ [msg]\<rparr>)"

definition call :: "server \<Rightarrow> request \<Rightarrow> 'z io_scheme \<Rightarrow> json res \<times> 'z io_scheme" where
  "call srv rq s = (srv rq, s\<lparr>sent := sent s @ [rq]\<rparr>)"

definition attr :: "(workbook \<Rightarrow> 'a) \<Rightarrow> world \<Rightarrow> 'a res \<times> world" where
  "attr f w = (Inr (f (self w)), w)"

definition read_props :: "key list \<Rightarrow> world \<Rightarrow> json res \<times> world" where
  "read_props ks w = (get_path (props (self w)) ks, w)"

definition mutate_props :: "key list \<Rightarrow> (json \<Rightarrow> json res) \<Rightarrow> world \<Rightarrow> unit res \<times> world" where
  "mutate_props ks f w =
     (case modify_at ks f (props (self w)) of
        Inl e \<Rightarrow> (Inl e, w)
      | Inr p \<Rightarrow> (Inr (), w\<lparr>self := (self w)\<lparr>props := p\<rparr>\<rparr>))"

definition print_exc :: "string \<Rightarrow> py_error \<Rightarrow> 'z io_scheme \<Rightarrow> unit res \<times> 'z io_scheme" where
  \<comment> \<open>\<^verbatim>\<open>print(prefix + sys.exc_info()[0])\<close>: the right operand is the exception's class\<close>
  "print_exc prefix e = py_bind (lift (str_add prefix (ExcClass e))) print_line"

definition io0 :: io where
  "io0 = \<lparr>sent = [], printed = []\<rparr>"

definition on :: "workbook \<Rightarrow> world" where
  \<comment> \<open>the start of a method call on the object: nothing sent, nothing printed yet\<close>
  "on wb = \<lparr>sent = [], printed = [], self = wb\<rparr>"

section \<open>The class InsightsWorkbook\<close>

definition init :: "gis \<Rightarrow> string \<Rightarrow> string \<Rightarrow> json \<Rightarrow> string \<Rightarrow> json \<Rightarrow> workbook" where
  \<comment> \<open>\<^verbatim>\<open>__init__\<close>\<close>
  "init g ttl workbook_id workspace_id workspace_url prps =
     \<lparr>gis_conn = g, title = ttl, agol = (0 \<le> str_find (gis_url g) ''arcgis.com''),
      workbookID = workbook_id, workspaceID = workspace_id, workspaceURL = workspace_url,
      props = prps\<rparr>"

definition default_props :: "string \<Rightarrow> json" where
  \<comment> \<open>the dict literal \<^verbatim>\<open>props\<close> of \<^verbatim>\<open>new\<close>\<close>
  "default_props ttl = JObj
     [(''format'', JInt 9),
      (''title'', JStr ttl),
      (''pages'', JList [JObj
         [(''title'', JStr ''Page 1''),
          (''model'', JObj [(''items'', JList [])]),
          (''cards'', JList []),
          (''layout'', JList []),
          (''contents'', JList [])]]),
      (''activePage'', JInt 0),
      (''workspace'', JObj [(''datasets'', JObj [])]),
      (''_ssl'', JBool True),
      (''created'', JInt 0),
      (''modified'', JInt 0),
      (''guid'', JNull),
      (''type'', JStr ''Insights Workbook''),
      (''typeKeywords'', JList [JStr ''Application'', JStr ''ArcGIS'',
                                JStr ''Insights Workbook'', JStr ''Hosted Service'']),
      (''description'', JNull),
      (''tags'', JList []),
      (''snippet'', JNull),
      (''thumbnail'', JNull),
      (''documentation'', JNull),
      (''extent'', JList []),
      (''categories'', JList []),
      (''spatialReference'', JNull),
      (''accessInformation'', JNull),
      (''licenseInfo'', JNull),
      (''culture'', JStr ''english (united states)''),
      (''properties'', JNull),
      (''proxyFilter'', JNull),
      (''access'', JStr ''private''),
      (''size'', JInt 0),
      (''appCategories'', JList []),
      (''industries'', JList []),
      (''languages'', JList []),
      (''largeThumbnail'', JNull),
      (''banner'', JNull),
      (''screenshots'', JList []),
      (''listed'', JBool False),
      (''ownerFolder'', JNull),
      (''protected'', JBool False),
      (''commentsEnabled'', JBool True),
      (''numComments'', JInt 0),
      (''numRatings'', JInt 0),
      (''avgRating'', JInt 0),
      (''numViews'', JInt 3),
      (''itemControl'', JStr ''admin''),
      (''scoreCompleteness'', JInt 0),
      (''groupDesignations'', JNull)]"

definition hosted_workspace_url :: "gis \<Rightarrow> string \<Rightarrow> string" where
  \<comment> \<open>\<^verbatim>\<open>workspace_url\<close>, computed alike by new and open: the hosted service URL differs
      between Portal and ArcGIS Online\<close>
  "hosted_workspace_url g workbook_id =
     (let insights_service_url =
            (if 0 \<le> str_find (gis_url g) ''arcgis.com''
             then ''https://insightsservices.arcgis.com/'' @ portal_id g @ ''/arcgis/rest/services/''
             else lower (gis_url g) @ ''/arcgis/rest/services/Hosted/'')
      in insights_service_url @ workbook_id @ ''/WorkspaceServer'')"

text \<open>
  \<^verbatim>\<open>new(gis, title)\<close>; \<open>rnd\<close> is the value of \<^verbatim>\<open>random.randrange(16**8)\<close>.
\<close>

definition new :: "server \<Rightarrow> nat \<Rightarrow> gis \<Rightarrow> string \<Rightarrow> io \<Rightarrow> workbook res \<times> io" where
  \<open>new srv rnd g ttl =
     (let workbook_id = percent_0x 8 rnd;
          workspace_url = hosted_workspace_url g workbook_id;
          path = portal_url g @ ''/sharing/rest/content/users/'' @ username g @ ''/createService'';
          post_data = [(''f'', AStr ''json''),
                       (''createParameters'', AStr (''{"name": "'' @ workbook_id @ ''"}'')),
                       (''targetType'', AStr ''workspaceService'')]
      in try_except
           (py_bind (call srv (Post path post_data)) (\<lambda>resp.
            py_bind (lift (getitem resp (KStr (if str_find (gis_url g) ''arcgis.com'' < 0
                                               then ''itemId'' else ''serviceItemId'')))) (\<lambda>workspace_id.
            let item_props = [(''f'', AStr ''json''), (''id'', AJson workspace_id),
                              (''type'', AStr ''Insights Workbook''), (''title'', AStr ttl)]
                             @ (if 0 \<le> str_find (gis_url g) ''arcgis.com''
                                then [(''url'', AStr workspace_url)] else []);
                prps = default_props ttl
            in py_bind (call srv (UpdateItem workspace_id item_props (ADumps prps))) (\<lambda>_.
               py_return (init g ttl workbook_id workspace_id workspace_url prps)))))
           (\<lambda>e. py_bind (print_exc ''Error creating workbook: '' e) (\<lambda>_. py_raise GenericException)))\<close>

text \<open>\<^verbatim>\<open>open(existing_workbook)\<close>\<close>

definition open_workbook :: "server \<Rightarrow> item \<Rightarrow> io \<Rightarrow> workbook res \<times> io" where
  \<open>open_workbook srv existing_workbook =
     (let g = item_gis existing_workbook;
          ttl = item_title existing_workbook;
          workbook_id = item_name existing_workbook;
          workspace_url = hosted_workspace_url g workbook_id;
          workspace_id = item_id existing_workbook;
          path = lower (gis_url g) @ ''/sharing/rest/content/items/'' @ workspace_id @ ''/data''
      in try_except
           (py_bind (call srv (Get path [(''f'', AStr ''json'')])) (\<lambda>resp.
            py_return (init g ttl workbook_id (JStr workspace_id) workspace_url resp)))
           (\<lambda>e. py_bind (print_exc ''Error retrieving workbook data: '' e) (\<lambda>_. py_raise GenericException)))\<close>

definition layer_extent :: "feature_layer \<Rightarrow> nat \<Rightarrow> json res" where
  "layer_extent lyr sublayer =
     (if sublayer < length (lyr_extents lyr) then lyr_extents lyr ! sublayer else Inl IndexError)"

definition source_entry :: "json \<Rightarrow> feature_layer \<Rightarrow> json \<Rightarrow> json" where
  \<comment> \<open>the workspace entry of a feature layer, written by add_feature_layer and update_dataset\<close>
  "source_entry data lyr my_extent = JObj
     [(''data'', data),
      (''owner'', JStr (lyr_id lyr)),
      (''fields'', JObj [(''shape'', JObj [(''alias'', JStr ''Location'')])]),
      (''extent'', my_extent),
      (''origin'', JBool True)]"

definition add_data_post :: "string \<Rightarrow> string \<Rightarrow> (string \<times> arg) list" where
  \<comment> \<open>the \<^verbatim>\<open>post_data\<close> of the add-data tool, built alike by add_feature_layer and
      update_dataset from the layer's URL and the dataset name\<close>
  \<open>add_data_post url dataset_name =
     [(''f'', AStr ''json''),
      (''tools'', AStr (''[{"name":"add-data","params":{"data":{'' @
                       ''"type":"feature-layer",'' @
                       ''"url":"'' @ url @
                       ''"}},"outDataset":"'' @ dataset_name @ ''"}]'')),
      (''outDatasets'', AStr (''["'' @ dataset_name @ ''"]''))]\<close>

text \<open>
  \<^verbatim>\<open>add_feature_layer(lyr, sublayer)\<close>; \<open>rnd\<close> is the value of \<^verbatim>\<open>random.randrange(16**7)\<close>.
\<close>

definition add_feature_layer :: "server \<Rightarrow> nat \<Rightarrow> feature_layer \<Rightarrow> nat \<Rightarrow> world \<Rightarrow> string res \<times> world" where
  \<open>add_feature_layer srv rnd lyr sublayer =
     (let dataset_name = lyr_title lyr @ ''_'' @ percent_0x 7 rnd;
          post_data = add_data_post (lyr_url lyr @ ''/'' @ str_of_nat sublayer) dataset_name
      in try_except
           (py_bind (attr workspaceURL) (\<lambda>url.
            py_bind (call srv (Post (url @ ''/execute'') post_data)) (\<lambda>resp.
            py_bind (mutate_props [KStr ''pages'', KIdx 0, KStr ''model'', KStr ''items'']
                       (append (JObj
                          [(''operation'', JStr ''add-data''),
                           (''params'', JObj [(''data'', JObj
                              [(''type'', JStr ''feature-layer''),
                               (''url'', JStr (lyr_url lyr @ ''/'' @ str_of_nat sublayer))])]),
                           (''outDataset'', JStr dataset_name)]))) (\<lambda>_.
            py_bind (mutate_props [KStr ''pages'', KIdx 0, KStr ''contents'']
                       (append (JObj [(''dataset'', JStr dataset_name)]))) (\<lambda>_.
            py_bind (lift (layer_extent lyr sublayer)) (\<lambda>my_extent.
            py_bind (lift (getitem resp (KStr dataset_name))) (\<lambda>data.
            py_bind (mutate_props [KStr ''workspace'', KStr ''datasets'']
                       (setitem dataset_name (source_entry data lyr my_extent))) (\<lambda>_.
            py_return dataset_name))))))))
           (\<lambda>e. py_bind (print_exc ''Error adding feature layer: '' e) (\<lambda>_. py_raise GenericException)))\<close>

subsection \<open>update_dataset\<close>

definition py_and :: "bool res \<Rightarrow> bool res \<Rightarrow> bool res" where
  \<comment> \<open>\<^verbatim>\<open>a and b\<close>: b is evaluated only when a is true\<close>
  "py_and a b = res_bind a (\<lambda>x. if x then b else Inr False)"

fun find_ge0 :: "json \<Rightarrow> string \<Rightarrow> bool res" where
  \<comment> \<open>\<^verbatim>\<open>u.find(sub) >= 0\<close>: only a str has the method\<close>
  "find_ge0 (JStr s) sub = Inr (0 \<le> str_find s sub)"
| "find_ge0 u sub = Inl AttributeError"

definition is_add_op :: "string \<Rightarrow> json \<Rightarrow> bool res" where
  \<comment> \<open>the condition of the list comprehension that selects the add-data model items\<close>
  "is_add_op url x =
     py_and (py_in ''outDataset'' x)
    (py_and (py_in ''params'' x)
    (py_and (res_bind (getitem x (KStr ''params'')) (py_in ''data''))
    (py_and (res_bind (get_path x [KStr ''params'', KStr ''data'']) (py_in ''url''))
            (res_bind (get_path x [KStr ''params'', KStr ''data'', KStr ''url''])
                      (\<lambda>u. find_ge0 u url)))))"

fun filter_res :: "('a \<Rightarrow> bool res) \<Rightarrow> 'a list \<Rightarrow> 'a list res" where
  \<comment> \<open>\<^verbatim>\<open>[x for x in xs if p(x)]\<close>, stopping at the first element where p raises\<close>
  "filter_res p [] = Inr []"
| "filter_res p (x # xs) =
     res_bind (p x) (\<lambda>b. res_bind (filter_res p xs) (\<lambda>ys. Inr (if b then x # ys else ys)))"

fun py_keys :: "json \<Rightarrow> string list res" where
  "py_keys (JObj kvs) = Inr (remdups (map fst kvs))"
| "py_keys x = Inl AttributeError"

fun tools_loop :: "json \<Rightarrow> json \<Rightarrow> string \<Rightarrow> nat list \<Rightarrow> world \<Rightarrow> unit res \<times> world" where
  \<comment> \<open>\<^verbatim>\<open>for i in range(len(ds_tools))\<close>: replace the reference where it equals the old data\<close>
  "tools_loop old_data new_data ds [] = py_return ()"
| "tools_loop old_data new_data ds (i # rest) =
     py_bind (read_props [KStr ''workspace'', KStr ''datasets'', KStr ds, KStr ''data'',
                          KStr ''tools'', KIdx i, KStr ''params'', KStr ''dataset'']) (\<lambda>d.
     py_bind (if py_eq d old_data
              then mutate_props [KStr ''workspace'', KStr ''datasets'', KStr ds, KStr ''data'',
                                 KStr ''tools'', KIdx i, KStr ''params'']
                                (setitem ''dataset'' new_data)
              else py_return ()) (\<lambda>_.
     tools_loop old_data new_data ds rest))"

fun datasets_loop :: "json \<Rightarrow> json \<Rightarrow> string list \<Rightarrow> world \<Rightarrow> unit res \<times> world" where
  \<comment> \<open>\<^verbatim>\<open>for ds in datasets.keys()\<close>, with the \<^verbatim>\<open>try\<close> around the whole inner loop\<close>
  "datasets_loop old_data new_data [] = py_return ()"
| "datasets_loop old_data new_data (ds # rest) =
     py_bind (try_except
                (py_bind (read_props [KStr ''workspace'', KStr ''datasets'', KStr ds,
                                      KStr ''data'', KStr ''tools'']) (\<lambda>ds_tools.
                 py_bind (lift (py_len ds_tools)) (\<lambda>n.
                 tools_loop old_data new_data ds [0..<n])))
                (\<lambda>e. if e = KeyError \<or> e = TypeError then py_return () else py_raise e)) (\<lambda>_.
     datasets_loop old_data new_data rest)"

text \<open>
  \<^verbatim>\<open>update_dataset(lyr, sublayer)\<close>. The result is the dataset name, or \<open>None\<close> where the
  method ends without a \<^verbatim>\<open>return\<close>.
\<close>

definition update_dataset :: "server \<Rightarrow> feature_layer \<Rightarrow> nat \<Rightarrow> world \<Rightarrow> string option res \<times> world" where
  \<open>update_dataset srv lyr sublayer =
     py_bind (read_props [KStr ''pages'', KIdx 0, KStr ''model'', KStr ''items'']) (\<lambda>model_items.
     py_bind (lift (res_bind (py_iter model_items) (filter_res (is_add_op (lyr_url lyr))))) (\<lambda>add_op.
     if 0 < length add_op then
       py_bind (lift (getitem (add_op ! 0) (KStr ''outDataset''))) (\<lambda>dataset_name.
       py_bind (lift (get_path (add_op ! 0) [KStr ''params'', KStr ''data'', KStr ''url''])) (\<lambda>url.
       py_bind (lift (str_operand url)) (\<lambda>url.
       py_bind (lift (str_operand dataset_name)) (\<lambda>name.
       let post_data = add_data_post url name
       in try_except
            (py_bind (attr workspaceURL) (\<lambda>wurl.
             py_bind (call srv (Post (wurl @ ''/execute'') post_data)) (\<lambda>resp.
             py_bind (read_props [KStr ''workspace'', KStr ''datasets'', KStr name, KStr ''data'']) (\<lambda>old_data.
             py_bind (lift (layer_extent lyr sublayer)) (\<lambda>my_extent.
             py_bind (lift (getitem resp (KStr name))) (\<lambda>new_data.
             py_bind (mutate_props [KStr ''workspace'', KStr ''datasets'']
                        (setitem name (source_entry new_data lyr my_extent))) (\<lambda>_.
             py_bind (read_props [KStr ''workspace'', KStr ''datasets'']) (\<lambda>dsets.
             py_bind (lift (py_keys dsets)) (\<lambda>ks.
             py_bind (datasets_loop old_data new_data ks) (\<lambda>_.
             py_return (Some name)))))))))))
            (\<lambda>e. if e = HTTPError
                 then py_bind (print_exc ''Error updating feature layer: '' e) (\<lambda>_. py_return None)
                 else py_raise e)))))
     else py_bind (print_line ''Layer does not exist within this Workbook'') (\<lambda>_.
          py_raise GenericException)))\<close>

subsection \<open>add_map, aggregate, add_chart, save\<close>

type_synonym dataset_name = string
type_synonym field_name = string
type_synonym field_type = string
type_synonym stat_name = string

definition layout_entry :: "nat \<Rightarrow> json" where
  \<comment> \<open>the new card goes to the right of the last one: \<^verbatim>\<open>card_ct * 20 + card_ct\<close>\<close>
  "layout_entry card_ct = JObj
     [(''x'', JInt (int card_ct * 20 + int card_ct)), (''y'', JInt 0),
      (''w'', JInt 20), (''h'', JInt 20)]"

definition map_card :: "nat \<Rightarrow> dataset_name \<Rightarrow> json \<Rightarrow> json" where
  \<comment> \<open>the card that add_map appends\<close>
  "map_card card_ct dataset my_extent = JObj
     [(''type'', JStr ''map''),
      (''title'', JStr (''Card '' @ str_of_nat (card_ct + 1))),
      (''content'', JObj
         [(''layers'', JList [JObj [(''datasetId'', JStr dataset)]]),
          (''extent'', my_extent)])]"

definition add_map :: "string \<Rightarrow> world \<Rightarrow> unit res \<times> world" where
  "add_map dataset =
     py_bind (read_props [KStr ''workspace'', KStr ''datasets'', KStr dataset]) (\<lambda>layer_dataset.
     if truthy layer_dataset then
       py_bind (read_props [KStr ''pages'', KIdx 0, KStr ''cards'']) (\<lambda>cards.
       py_bind (lift (py_len cards)) (\<lambda>card_ct.
       py_bind (read_props [KStr ''workspace'', KStr ''datasets'', KStr dataset, KStr ''extent'']) (\<lambda>my_extent.
       py_bind (mutate_props [KStr ''pages'', KIdx 0, KStr ''cards'']
                  (append (map_card card_ct dataset my_extent))) (\<lambda>_.
       mutate_props [KStr ''pages'', KIdx 0, KStr ''layout''] (append (layout_entry card_ct))))))
     else py_bind (print_line ''Invalid dataset name'') (\<lambda>_. py_raise GenericException))"

definition aggregate_item ::
  "dataset_name \<Rightarrow> field_name \<Rightarrow> stat_name \<Rightarrow> field_name \<Rightarrow> field_name \<Rightarrow> dataset_name \<Rightarrow> json" where
  \<comment> \<open>the model item that aggregate appends\<close>
  "aggregate_item in_dataset groupby_field stat_type stat_field out_field out_dataset = JObj
     [(''operation'', JStr ''aggregate''),
      (''params'', JObj
         [(''dataset'', JStr in_dataset),
          (''groupBy'', JList [JStr groupby_field]),
          (''statistics'', JList [JObj
             [(''type'', JStr stat_type), (''field'', JStr stat_field),
              (''outField'', JStr out_field)]]),
          (''totals'', JBool False)]),
      (''outDataset'', JStr out_dataset)]"

definition aggregate_tool ::
  "json \<Rightarrow> field_name \<Rightarrow> stat_name \<Rightarrow> field_name \<Rightarrow> field_name \<Rightarrow> dataset_name \<Rightarrow> json" where
  \<comment> \<open>the entry of \<^verbatim>\<open>tools\<close> in the data of the aggregated dataset\<close>
  "aggregate_tool in_data_id groupby_field stat_type stat_field out_field out_dataset = JObj
     [(''name'', JStr ''aggregate''),
      (''params'', JObj
         [(''dataset'', in_data_id),
          (''groupBy'', JList [JStr groupby_field]),
          (''statistics'', JList [JObj
             [(''type'', JStr stat_type), (''field'', JStr stat_field),
              (''outField'', JStr out_field)]]),
          (''materialize'', JBool False)]),
      (''outDataset'', JStr out_dataset)]"

definition aggregate_entry ::
  "json \<Rightarrow> field_name \<Rightarrow> field_type \<Rightarrow> stat_name \<Rightarrow> field_name \<Rightarrow> field_name \<Rightarrow> field_type
   \<Rightarrow> dataset_name \<Rightarrow> string \<Rightarrow> string \<Rightarrow> json" where
  \<comment> \<open>the workspace entry of the aggregated dataset; in the dict literal of \<^verbatim>\<open>fields\<close>
      the second key overwrites the first when the two names coincide\<close>
  "aggregate_entry in_data_id groupby_field groupby_field_type stat_type stat_field
                   out_field out_type out_dataset out_name in_dataset_base = JObj
     [(''data'', JObj
         [(''metadata'', JObj
            [(''fields'', JList
               [JObj [(''name'', JStr groupby_field), (''alias'', JStr groupby_field),
                      (''type'', JStr groupby_field_type), (''entity'', JStr ''e0'')],
                JObj [(''name'', JStr out_field), (''alias'', JStr out_field),
                      (''type'', JStr out_type)]]),
             (''entities'', JList [JObj
               [(''fields'', JList [JStr groupby_field, JStr out_field]),
                (''keyFields'', JList [JStr groupby_field])]])]),
          (''tools'', JList
             [aggregate_tool in_data_id groupby_field stat_type stat_field out_field out_dataset]),
          (''outDataset'', JStr out_dataset)]),
      (''name'', JStr out_name),
      (''fields'', JObj (AList.update groupby_field (JObj [])
         [(out_field, JObj [(''alias'', JStr (title_case stat_type @ '' of '' @ in_dataset_base))])]))]"

text \<open>
  \<^verbatim>\<open>aggregate(in_dataset, ..., out_name=None)\<close>; \<open>rnd\<close> is the value of
  \<^verbatim>\<open>random.randrange(16**7)\<close>.
\<close>

definition aggregate ::
  "nat \<Rightarrow> dataset_name \<Rightarrow> field_name \<Rightarrow> field_type \<Rightarrow> stat_name \<Rightarrow> field_name \<Rightarrow> field_type
   \<Rightarrow> string option \<Rightarrow> world \<Rightarrow> dataset_name res \<times> world" where
  "aggregate rnd in_dataset groupby_field groupby_field_type stat_type stat_field
             stat_field_type out_name =
     (let in_dataset_base = slice_to in_dataset (str_find in_dataset ''_'');
          out_dataset = in_dataset_base @ ''_'' @ percent_0x 7 rnd;
          out_field = lower stat_field @ ''_'' @ stat_type;
          out_type = (if stat_type = ''count'' then ''esriFieldTypeInteger''
                      else if stat_type = ''avg'' then ''esriFieldTypeDouble''
                      else stat_field_type)
      in py_bind (mutate_props [KStr ''pages'', KIdx 0, KStr ''model'', KStr ''items'']
                    (append (aggregate_item in_dataset groupby_field stat_type stat_field
                                            out_field out_dataset))) (\<lambda>_.
         py_bind (read_props [KStr ''workspace'', KStr ''datasets'', KStr in_dataset, KStr ''data'']) (\<lambda>in_data_id.
         let out_name = (case out_name of None \<Rightarrow> out_dataset
                         | Some n \<Rightarrow> if n = [] then out_dataset else n)
         in py_bind (mutate_props [KStr ''workspace'', KStr ''datasets'']
                       (setitem out_dataset
                          (aggregate_entry in_data_id groupby_field groupby_field_type stat_type
                             stat_field out_field out_type out_dataset out_name in_dataset_base))) (\<lambda>_.
            py_return out_dataset))))"

definition chart_card :: "nat \<Rightarrow> string \<Rightarrow> string \<Rightarrow> json" where
  "chart_card card_ct out_dataset chart_type = JObj
     [(''title'', JStr (''Card '' @ str_of_nat (card_ct + 1))),
      (''type'', JStr ''chart''),
      (''content'', JObj
         [(''layers'', JList [JObj
            [(''datasetId'', JStr out_dataset),
             (''chartLines'', JObj [(''mean'', JBool True)]),
             (''colors'', JObj [])]]),
          (''type'', JStr chart_type)])]"

definition add_chart ::
  "nat \<Rightarrow> string \<Rightarrow> dataset_name \<Rightarrow> field_name \<Rightarrow> field_type \<Rightarrow> stat_name \<Rightarrow> field_name
   \<Rightarrow> field_type \<Rightarrow> world \<Rightarrow> unit res \<times> world" where
  "add_chart rnd chart_type in_dataset groupby_field groupby_field_type stat_type stat_field
             stat_field_type =
     py_bind (read_props [KStr ''pages'', KIdx 0, KStr ''cards'']) (\<lambda>cards.
     py_bind (lift (py_len cards)) (\<lambda>card_ct.
     let chart_title = title_case chart_type @ '' Chart '' @ str_of_nat (card_ct + 1)
     in py_bind (aggregate rnd in_dataset groupby_field groupby_field_type stat_type stat_field
                   stat_field_type (Some chart_title)) (\<lambda>out_dataset.
        py_bind (mutate_props [KStr ''pages'', KIdx 0, KStr ''cards'']
                   (append (chart_card card_ct out_dataset chart_type))) (\<lambda>_.
        mutate_props [KStr ''pages'', KIdx 0, KStr ''layout''] (append (layout_entry card_ct))))))"

definition save :: "server \<Rightarrow> world \<Rightarrow> unit res \<times> world" where
  "save srv =
     py_bind (attr (\<lambda>me. me)) (\<lambda>me.
     py_bind (mutate_props [] (setitem ''id'' (workspaceID me))) (\<lambda>_.
     py_bind (mutate_props [] (setitem ''owner'' (JStr (username (gis_conn me))))) (\<lambda>_.
     py_bind (mutate_props [] (setitem ''name'' (JStr (workbookID me)))) (\<lambda>_.
     py_bind (mutate_props [] (setitem ''url'' (JStr (workspaceURL me)))) (\<lambda>_.
     py_bind (attr props) (\<lambda>prps.
     let post_data = [(''f'', AStr ''json''), (''title'', AStr (title me)), (''text'', ADumps prps)]
     in py_bind (lift (str_operand (workspaceID me))) (\<lambda>wsid.
        let update_url = lower (gis_url (gis_conn me)) @ ''/sharing/rest/content/users/'' @
                         username (gis_conn me) @ ''/items/'' @ wsid @ ''/update''
        in try_except
             (py_bind (call srv (Post update_url post_data)) (\<lambda>_. py_return ()))
             (\<lambda>e. py_bind (print_exc ''Error saving workspace: '' e) (\<lambda>_. py_raise GenericException)))))))))"

section \<open>The claims' own notions and sample objects\<close>

text \<open>
  The base name of a dataset as the specification words it: the part before the first
  underscore, or the name without its last character when there is no underscore.
\<close>

definition spec_base_name :: "string \<Rightarrow> string" where
  "spec_base_name s = (if CHR ''_'' \<in> set s then takeWhile (\<lambda>c. c \<noteq> CHR ''_'') s else butlast s)"


text \<open>
  The type of the output field and the name shown to the user, as aggregate computes
  them from its arguments.
\<close>

definition aggregate_out_type :: "stat_name \<Rightarrow> field_type \<Rightarrow> field_type" where
  "aggregate_out_type st sft =
     (if st = ''count'' then ''esriFieldTypeInteger''
      else if st = ''avg'' then ''esriFieldTypeDouble'' else sft)"

definition aggregate_shown_name :: "string option \<Rightarrow> string \<Rightarrow> string" where
  "aggregate_shown_name out_name out =
     (case out_name of None \<Rightarrow> out | Some n \<Rightarrow> if n = [] then out else n)"

text \<open>
  The four endpoints of the server that the specification names, recognised by the last
  segment of the request's URL; \<^verbatim>\<open>update_item\<close> of the portal object is the update
  endpoint by its name.
\<close>

datatype endpoint = CreateService | UpdateItemEndpoint | ExecuteTool | GetItemData | OtherEndpoint

definition last_segment :: "string \<Rightarrow> string" where
  "last_segment url = rev (takeWhile (\<lambda>c. c \<noteq> CHR ''/'') (rev url))"

fun endpoint_of :: "request \<Rightarrow> endpoint" where
  "endpoint_of (Post url d) =
     (if last_segment url = ''createService'' then CreateService
      else if last_segment url = ''execute'' then ExecuteTool
      else if last_segment url = ''update'' then UpdateItemEndpoint
      else OtherEndpoint)"
| "endpoint_of (Get url d) = (if last_segment url = ''data'' then GetItemData else OtherEndpoint)"
| "endpoint_of (UpdateItem i p d) = UpdateItemEndpoint"

text \<open>
  A computation sends only requests that satisfy \<open>P\<close>: whatever the state it starts in,
  the requests it adds to those already sent all satisfy \<open>P\<close>.
\<close>

definition sends_only :: "(request \<Rightarrow> bool) \<Rightarrow> ('z io_scheme \<Rightarrow> 'a res \<times> 'z io_scheme) \<Rightarrow> bool" where
  "sends_only P m = (\<forall>s. \<exists>rs. sent (snd (m s)) = sent s @ rs \<and> list_all P rs)"


text \<open>Sample objects on which the theorems below are instantiated.\<close>

definition demo_gis :: gis where
  "demo_gis = \<lparr>gis_url = ''https://GIS.example.org/portal'', portal_url = ''https://gis.example.org/portal'',
               portal_id = ''org1'', username = ''ann''\<rparr>"

definition demo_items :: "(string \<times> json) list" where
  "demo_items =
     [(''title'', JStr ''Demo''),
      (''pages'', JList [JObj
         [(''model'', JObj [(''items'', JList [JObj
             [(''operation'', JStr ''add-data''),
              (''params'', JObj [(''data'', JObj
                 [(''type'', JStr ''feature-layer''), (''url'', JStr ''https://fs.example.org/roads/0'')])]),
              (''outDataset'', JStr ''Roads_0000abc'')]])]),
          (''cards'', JList []),
          (''layout'', JList []),
          (''contents'', JList [JObj [(''dataset'', JStr ''Roads_0000abc'')]])]]),
      (''workspace'', JObj [(''datasets'', JObj
         [(''Roads_0000abc'', JObj
            [(''data'', JStr ''d1''), (''owner'', JStr ''L1''), (''extent'', JList []),
             (''origin'', JBool True)])])])]"

definition demo_props :: json where
  "demo_props = JObj demo_items"

definition demo_workbook :: workbook where
  "demo_workbook = init demo_gis ''Demo'' ''0000beef'' (JStr ''item1'')
     (hosted_workspace_url demo_gis ''0000beef'') demo_props"

definition demo_layer :: feature_layer where
  "demo_layer = \<lparr>lyr_title = ''Roads'', lyr_url = ''https://fs.example.org/roads'', lyr_id = ''L1'',
                 lyr_extents = [Inr (JList [])]\<rparr>"

definition demo_response :: json where
  "demo_response = JObj [(''itemId'', JStr ''item1''), (''serviceItemId'', JStr ''item1''),
                         (''Roads_0000abc'', JStr ''d2'')]"

definition demo_server :: server where
  "demo_server rq = Inr demo_response"

definition failing_server :: "py_error \<Rightarrow> server" where
  "failing_server e rq = Inl e"

text \<open>
  Another workbook that \<^verbatim>\<open>open\<close> can load: its page has no model items and no
  \<^verbatim>\<open>layout\<close> key, and the entry of the dataset \<open>Empty_0000000\<close> is an empty dict.
\<close>

definition sparse_items :: "(string \<times> json) list" where
  "sparse_items =
     [(''pages'', JList [JObj
         [(''model'', JObj [(''items'', JList [])]),
          (''cards'', JList [])]]),
      (''workspace'', JObj [(''datasets'', JObj
         [(''Empty_0000000'', JObj []),
          (''Roads_0000abc'', JObj [(''data'', JStr ''d1''), (''extent'', JList [])])])])]"

definition sparse_workbook :: workbook where
  "sparse_workbook = init demo_gis ''Demo'' ''0000beef'' (JStr ''item1'')
     (hosted_workspace_url demo_gis ''0000beef'') (JObj sparse_items)"

text \<open>
  A computation leaves the value at a path of props as it was, whatever the state it
  starts in and however it ends.
\<close>

definition leaves_path :: "key list \<Rightarrow> (world \<Rightarrow> 'a res \<times> world) \<Rightarrow> bool" where
  "leaves_path ks m = (\<forall>w. get_path (props (self (snd (m w)))) ks = get_path (props (self w)) ks)"

text \<open>
  A workbook that \<^verbatim>\<open>open\<close> can load: the dataset \<open>Joined_0000001\<close> was derived in two
  steps, and only the second tool refers to the data of the road layer.
\<close>

definition joined_tools :: json where
  "joined_tools = JList
     [JObj [(''name'', JStr ''add-data''),
            (''params'', JObj [(''data'', JObj [(''type'', JStr ''table'')])]),
            (''outDataset'', JStr ''t1'')],
      JObj [(''name'', JStr ''aggregate''),
            (''params'', JObj [(''dataset'', JStr ''d1''), (''groupBy'', JList [JStr ''kind''])]),
            (''outDataset'', JStr ''Joined_0000001'')]]"

definition stale_items :: "(string \<times> json) list" where
  "stale_items =
     [(''pages'', JList [JObj
         [(''model'', JObj [(''items'', JList [JObj
             [(''operation'', JStr ''add-data''),
              (''params'', JObj [(''data'', JObj
                 [(''type'', JStr ''feature-layer''), (''url'', JStr ''https://fs.example.org/roads/0'')])]),
              (''outDataset'', JStr ''Roads_0000abc'')]])]),
          (''cards'', JList []),
          (''layout'', JList []),
          (''contents'', JList [])]]),
      (''workspace'', JObj [(''datasets'', JObj
         [(''Roads_0000abc'', JObj [(''data'', JStr ''d1''), (''extent'', JList [])]),
          (''Joined_0000001'', JObj
             [(''data'', JObj [(''tools'', joined_tools), (''outDataset'', JStr ''Joined_0000001'')]),
              (''name'', JStr ''Joined'')])])])]"

definition stale_workbook :: workbook where
  "stale_workbook = init demo_gis ''Demo'' ''0000beef'' (JStr ''item1'')
     (hosted_workspace_url demo_gis ''0000beef'') (JObj stale_items)"


section \<open>Properties of the operations\<close>

subsection \<open>Searching and formatting strings\<close>

lemma str_find_char:
  "str_find s [c] = (if c \<in> set s then int (length (takeWhile (\<lambda>d. d \<noteq> c) s)) else - 1)"
proof (induction s)
  case Nil
  then show ?case by simp
next
  case (Cons a s)
  show ?case
  proof (cases "a = c")
    case True
    then show ?thesis by simp
  next
    case False
    have "str_find (a # s) [c] = (let r = str_find s [c] in if r < 0 then - 1 else r + 1)"
      using False by simp
    also have "\<dots> = (if c \<in> set s then int (length (takeWhile (\<lambda>d. d \<noteq> c) s)) + 1 else - 1)"
      unfolding Cons.IH Let_def by simp
    finally have eq: "str_find (a # s) [c] =
        (if c \<in> set s then int (length (takeWhile (\<lambda>d. d \<noteq> c) s)) + 1 else - 1)" .
    show ?thesis unfolding eq using False by simp
  qed
qed

lemma slice_to_find: "slice_to s (str_find s ''_'') = spec_base_name s"
proof (cases "CHR ''_'' \<in> set s")
  case True
  then show ?thesis
    using takeWhile_eq_take [of "\<lambda>c. c \<noteq> CHR ''_''" s]
    by (simp add: str_find_char slice_to_def spec_base_name_def)
next
  case False
  have "nat (int (length s) - 1) = length s - 1" by simp
  with False show ?thesis
    by (simp add: str_find_char slice_to_def spec_base_name_def butlast_conv_take)
qed

lemma hex_of_nat_length: "n < 16 ^ k \<Longrightarrow> 0 < k \<Longrightarrow> length (hex_of_nat n) \<le> k"
proof (induction k arbitrary: n)
  case 0
  then show ?case by simp
next
  case (Suc k)
  show ?case
  proof (cases "n < 16")
    case True
    then show ?thesis by (simp add: hex_of_nat.simps)
  next
    case False
    with Suc.prems have k: "0 < k" by (cases k) auto
    from Suc.prems have "n div 16 < 16 ^ k"
      by (simp add: less_mult_imp_div_less mult.commute)
    with Suc.IH k have "length (hex_of_nat (n div 16)) \<le> k" by blast
    with False show ?thesis by (subst hex_of_nat.simps) simp
  qed
qed

lemma digit_char_hex: "d < 16 \<Longrightarrow> is_hex_digit (digit_char d)"
  unfolding is_hex_digit_def digit_char_def
  using nth_mem [of d "''0123456789abcdef''"] by simp

lemma hex_of_nat_digits: "c \<in> set (hex_of_nat n) \<Longrightarrow> is_hex_digit c"
proof (induction n arbitrary: c rule: hex_of_nat.induct)
  case (1 n)
  show ?case
  proof (cases "n < 16")
    case True
    with "1.prems" show ?thesis by (simp add: hex_of_nat.simps digit_char_hex)
  next
    case False
    from "1.prems" False have "c \<in> set (hex_of_nat (n div 16)) \<or> c = digit_char (n mod 16)"
      by (subst (asm) hex_of_nat.simps) auto
    with "1.IH" False show ?thesis by (auto simp: digit_char_hex)
  qed
qed

lemma percent_0x_length: "n < 16 ^ k \<Longrightarrow> 0 < k \<Longrightarrow> length (percent_0x k n) = k"
  using hex_of_nat_length [of n k] by (simp add: percent_0x_def)

lemma percent_0x_digits: "c \<in> set (percent_0x k n) \<Longrightarrow> is_hex_digit c"
proof -
  have "is_hex_digit CHR ''0''" by (simp add: is_hex_digit_def)
  then show "c \<in> set (percent_0x k n) \<Longrightarrow> is_hex_digit c"
    by (auto simp: percent_0x_def hex_of_nat_digits)
qed

subsection \<open>Reading a path after a mutation\<close>

lemma map_of_update_same: "map_of (AList.update k v al) k = Some v"
  by (simp add: update_conv')

lemma map_of_update_other: "k' \<noteq> k \<Longrightarrow> map_of (AList.update k v al) k' = map_of al k'"
  by (simp add: update_conv')

lemma keys_update: "fst ` set (AList.update k v al) = insert k (fst ` set al)"
  by (induction al) auto

lemma modify_at_str:
  assumes f: "\<And>s. isl (f (JStr s))"
  shows "isl (modify_at ks f (JStr s))"
proof (induction ks arbitrary: s)
  case Nil
  show ?case by (simp add: f)
next
  case (Cons k ks)
  show ?case
  proof (cases k)
    case (KStr a)
    then show ?thesis by simp
  next
    case (KIdx i)
    then show ?thesis using Cons.IH [of "[s ! i]"] by (auto split: sum.splits)
  qed
qed

lemma getitem_put_child:
  assumes "getitem x k = Inr y" and "\<And>s. x \<noteq> JStr s"
  shows "getitem (put_child x k y') k = Inr y'"
  using assms by (cases x; cases k) (auto simp: map_of_update_same split: if_splits)

lemma modify_at_get:
  assumes f: "\<And>s. isl (f (JStr s))"
  shows "modify_at ks f x = Inr x' \<Longrightarrow>
         \<exists>y y'. get_path x ks = Inr y \<and> f y = Inr y' \<and> get_path x' ks = Inr y'"
proof (induction ks arbitrary: x x')
  case Nil
  then show ?case by simp
next
  case (Cons k ks)
  from Cons.prems obtain c c' where c: "getitem x k = Inr c"
    and m: "modify_at ks f c = Inr c'" and x': "x' = put_child x k c'"
    by (auto split: sum.splits)
  have nostr: "x \<noteq> JStr s" for s
  proof
    assume "x = JStr s"
    with c obtain t where "c = JStr t" by (cases k) (auto split: if_splits)
    moreover have "isl (modify_at ks f (JStr t))" by (rule modify_at_str) (rule f)
    ultimately show False using m by simp
  qed
  from Cons.IH [OF m] obtain y y' where "get_path c ks = Inr y" "f y = Inr y'" "get_path c' ks = Inr y'"
    by blast
  with c x' getitem_put_child [OF c nostr, of c'] show ?case by simp
qed

lemma modify_at_frame:
  "modify_at (pre @ KStr a # ks) f x = Inr x' \<Longrightarrow> a \<noteq> b \<Longrightarrow>
   get_path x' (pre @ KStr b # ks') = get_path x (pre @ KStr b # ks')"
proof (induction pre arbitrary: x x')
  case Nil
  from Nil.prems obtain c c' where c: "getitem x (KStr a) = Inr c"
    and x': "x' = put_child x (KStr a) c'"
    by (auto split: sum.splits)
  from c obtain kvs where "x = JObj kvs" by (cases x) auto
  with x' Nil.prems(2) show ?case by (simp add: map_of_update_other)
next
  case (Cons k pre)
  from Cons.prems obtain c c' where c: "getitem x k = Inr c"
    and m: "modify_at (pre @ KStr a # ks) f c = Inr c'" and x': "x' = put_child x k c'"
    by (auto split: sum.splits)
  show ?case
  proof (cases "\<exists>s. x = JStr s")
    case True
    with x' show ?thesis by (cases k) auto
  next
    case False
    with getitem_put_child [OF c, of c'] x' have "getitem x' k = Inr c'" by blast
    with c Cons.IH [OF m Cons.prems(2)] show ?thesis by simp
  qed
qed




subsection \<open>Unfolding a run\<close>

lemmas run_defs = py_bind_def py_return_def py_raise_def lift_def try_except_def res_bind_def
  print_line_def call_def attr_def read_props_def mutate_props_def

lemma aggregate_result:
  "fst (aggregate rnd in_dataset gf gft st sf sft out_name w) = Inr out \<Longrightarrow>
   out = slice_to in_dataset (str_find in_dataset ''_'') @ ''_'' @ percent_0x 7 rnd"
  by (auto simp: aggregate_def run_defs Let_def split: sum.splits prod.splits)

subsection \<open>The name of an aggregated dataset\<close>

text \<open>
  Claim C10. Whenever aggregate returns, the name of its output dataset is a base name,
  an underscore and a suffix of exactly seven hexadecimal digits; the base name is the
  part of \<open>in_dataset\<close> before its first underscore, or \<open>in_dataset\<close> without its
  last character when it has no underscore. The random number is one that
  \<^verbatim>\<open>random.randrange(16**7)\<close> can return.
\<close>

theorem aggregate_names_output:
  assumes "fst (aggregate rnd in_dataset gf gft st sf sft out_name w) = Inr out"
    and "rnd < 16 ^ 7"
  shows "\<exists>suffix. out = spec_base_name in_dataset @ ''_'' @ suffix
           \<and> length suffix = 7 \<and> list_all is_hex_digit suffix"
proof -
  have "out = spec_base_name in_dataset @ ''_'' @ percent_0x 7 rnd"
    using aggregate_result [OF assms(1)] by (simp add: slice_to_find)
  moreover have "length (percent_0x 7 rnd) = 7"
    using assms(2) by (simp add: percent_0x_length)
  moreover have "list_all is_hex_digit (percent_0x 7 rnd)"
    by (simp add: list_all_iff percent_0x_digits)
  ultimately show ?thesis by blast
qed

theorem aggregate_names_output_witness:
  "(17::nat) < 16 ^ 7
   \<and> fst (aggregate 17 ''Roads_0000abc'' ''kind'' ''esriFieldTypeString'' ''count'' ''LEN''
             ''esriFieldTypeDouble'' None (on demo_workbook)) = Inr ''Roads_0000011''
   \<and> (\<exists>suffix. ''Roads_0000011'' = spec_base_name ''Roads_0000abc'' @ ''_'' @ suffix
         \<and> length suffix = 7 \<and> list_all is_hex_digit suffix)"
proof -
  have h: "fst (aggregate 17 ''Roads_0000abc'' ''kind'' ''esriFieldTypeString'' ''count'' ''LEN''
             ''esriFieldTypeDouble'' None (on demo_workbook)) = Inr ''Roads_0000011''"
    by code_simp
  have b: "(17::nat) < 16 ^ 7" by simp
  from aggregate_names_output [OF h b] h b show ?thesis by blast
qed

subsection \<open>add_map on an unknown dataset\<close>

text \<open>
  Claim C9. When the given name is not a key of \<^verbatim>\<open>props['workspace']['datasets']\<close>,
  add_map raises (a KeyError) and leaves the object as it was: no card and no layout
  entry is appended, nothing is sent and nothing is printed.
\<close>

theorem add_map_unknown_dataset:
  assumes "get_path (props (self w)) [KStr ''workspace'', KStr ''datasets''] = Inr (JObj ds)"
    and "dataset \<notin> fst ` set ds"
  shows "add_map dataset w = (Inl KeyError, w)"
proof -
  from assms(2) have "map_of ds dataset = None" by (simp add: map_of_eq_None_iff)
  with assms(1) have "get_path (props (self w)) [KStr ''workspace'', KStr ''datasets'', KStr dataset] = Inl KeyError"
    by (auto split: sum.splits)
  then show ?thesis by (simp add: add_map_def run_defs)
qed

theorem add_map_unknown_dataset_witness:
  "get_path (props (self (on demo_workbook))) [KStr ''workspace'', KStr ''datasets'']
     = Inr (JObj [(''Roads_0000abc'', JObj
            [(''data'', JStr ''d1''), (''owner'', JStr ''L1''), (''extent'', JList []),
             (''origin'', JBool True)])])
   \<and> ''Rivers_0000001'' \<notin> fst ` set [(''Roads_0000abc'', JObj
            [(''data'', JStr ''d1''), (''owner'', JStr ''L1''), (''extent'', JList []),
             (''origin'', JBool True)])]
   \<and> add_map ''Rivers_0000001'' (on demo_workbook) = (Inl KeyError, on demo_workbook)"
proof -
  have a: "get_path (props (self (on demo_workbook))) [KStr ''workspace'', KStr ''datasets'']
     = Inr (JObj [(''Roads_0000abc'', JObj
            [(''data'', JStr ''d1''), (''owner'', JStr ''L1''), (''extent'', JList []),
             (''origin'', JBool True)])])"
    by (simp add: on_def demo_workbook_def init_def demo_props_def demo_items_def)
  have b: "''Rivers_0000001'' \<notin> fst ` set [(''Roads_0000abc'', JObj
            [(''data'', JStr ''d1''), (''owner'', JStr ''L1''), (''extent'', JList []),
             (''origin'', JBool True)])]"
    by simp
  from add_map_unknown_dataset [OF a b] a b show ?thesis by blast
qed

subsection \<open>new and save\<close>

lemma py_bind_Inr:
  "py_bind m f s = (Inr v, s'') \<longleftrightarrow> (\<exists>a s'. m s = (Inr a, s') \<and> f a s' = (Inr v, s''))"
  by (auto simp: py_bind_def split: prod.splits sum.splits)

lemma py_bind_Inl:
  "py_bind m f s = (Inl e, s'') \<longleftrightarrow>
     (m s = (Inl e, s'') \<or> (\<exists>a s'. m s = (Inr a, s') \<and> f a s' = (Inl e, s'')))"
  by (auto simp: py_bind_def split: prod.splits sum.splits)

lemma new_props:
  assumes "fst (new srv rnd g ttl io0) = Inr wb"
  shows "props wb = default_props ttl"
proof -
  obtain s where r: "new srv rnd g ttl io0 = (Inr wb, s)"
    using assms by (cases "new srv rnd g ttl io0") auto
  show ?thesis
    using r unfolding new_def Let_def try_except_def
    by (auto simp: py_bind_Inr py_bind_Inl py_return_def py_raise_def init_def print_exc_def
             split: prod.splits sum.splits)
qed

lemma new_succeeds:
  assumes "\<And>rq. srv rq = Inr resp"
    and "getitem resp (KStr ''itemId'') = Inr wid"
    and "getitem resp (KStr ''serviceItemId'') = Inr wid"
  shows "fst (new srv rnd g ttl io0)
    = Inr (init g ttl (percent_0x 8 rnd) wid (hosted_workspace_url g (percent_0x 8 rnd)) (default_props ttl))"
  using assms unfolding new_def Let_def
  by (simp add: run_defs)

text \<open>
  Claim C4. The workbook that \<^verbatim>\<open>new(gis, title)\<close> returns has the default document as
  its props: the given title, exactly one page titled Page 1 with empty model items,
  cards, layout and contents, active page 0 and no datasets.
\<close>

theorem new_default_props:
  assumes "fst (new srv rnd g ttl io0) = Inr wb"
  shows "props wb = default_props ttl
    \<and> getitem (props wb) (KStr ''title'') = Inr (JStr ttl)
    \<and> getitem (props wb) (KStr ''pages'') = Inr (JList [JObj
          [(''title'', JStr ''Page 1''), (''model'', JObj [(''items'', JList [])]),
           (''cards'', JList []), (''layout'', JList []), (''contents'', JList [])]])
    \<and> getitem (props wb) (KStr ''activePage'') = Inr (JInt 0)
    \<and> get_path (props wb) [KStr ''workspace'', KStr ''datasets''] = Inr (JObj [])"
proof -
  from assms have "props wb = default_props ttl" by (rule new_props)
  then show ?thesis by (simp add: default_props_def)
qed

theorem new_default_props_witness:
  "fst (new demo_server 48879 demo_gis ''Demo'' io0)
     = Inr (init demo_gis ''Demo'' (percent_0x 8 48879) (JStr ''item1'')
            (hosted_workspace_url demo_gis (percent_0x 8 48879)) (default_props ''Demo''))
   \<and> props (init demo_gis ''Demo'' (percent_0x 8 48879) (JStr ''item1'')
            (hosted_workspace_url demo_gis (percent_0x 8 48879)) (default_props ''Demo''))
       = default_props ''Demo''
   \<and> get_path (props (init demo_gis ''Demo'' (percent_0x 8 48879) (JStr ''item1'')
            (hosted_workspace_url demo_gis (percent_0x 8 48879)) (default_props ''Demo'')))
        [KStr ''workspace'', KStr ''datasets''] = Inr (JObj [])"
proof -
  have h: "fst (new demo_server 48879 demo_gis ''Demo'' io0)
     = Inr (init demo_gis ''Demo'' (percent_0x 8 48879) (JStr ''item1'')
            (hosted_workspace_url demo_gis (percent_0x 8 48879)) (default_props ''Demo''))"
    by (rule new_succeeds [where resp = demo_response])
       (simp_all add: demo_server_def demo_response_def)
  from new_default_props [OF h] h show ?thesis by blast
qed

lemma save_run:
  assumes "props (self w) = JObj kvs" and "workspaceID (self w) = JStr wsid"
  shows "\<exists>r. save srv w = (r,
     w\<lparr>sent := sent w @
        [Post (lower (gis_url (gis_conn (self w))) @ ''/sharing/rest/content/users/'' @
               username (gis_conn (self w)) @ ''/items/'' @ wsid @ ''/update'')
           [(''f'', AStr ''json''), (''title'', AStr (title (self w))),
            (''text'', ADumps (JObj (AList.update ''url'' (JStr (workspaceURL (self w)))
             (AList.update ''name'' (JStr (workbookID (self w)))
             (AList.update ''owner'' (JStr (username (gis_conn (self w))))
             (AList.update ''id'' (JStr wsid) kvs))))))]],
       self := (self w)\<lparr>props := JObj (AList.update ''url'' (JStr (workspaceURL (self w)))
             (AList.update ''name'' (JStr (workbookID (self w)))
             (AList.update ''owner'' (JStr (username (gis_conn (self w))))
             (AList.update ''id'' (JStr wsid) kvs))))\<rparr>\<rparr>)"
  using assms unfolding save_def Let_def
  by (simp add: run_defs print_exc_def split: sum.splits)

text \<open>
  Claim C3. For a workbook whose props is a dict and whose workspace ID is a string,
  save posts to the update endpoint of that item a body whose \<^verbatim>\<open>text\<close> is the
  serialization of the whole current props, with \<^verbatim>\<open>id\<close>, \<^verbatim>\<open>owner\<close>, \<^verbatim>\<open>name\<close> and
  \<^verbatim>\<open>url\<close> set to the workspace ID, the user name, the workbook ID and the workspace
  URL, and whose \<^verbatim>\<open>title\<close> is the stored title.
\<close>

theorem save_posts_props:
  assumes "props (self w) = JObj kvs" and "workspaceID (self w) = JStr wsid"
  shows "sent (snd (save srv w)) = sent w @
      [Post (lower (gis_url (gis_conn (self w))) @ ''/sharing/rest/content/users/'' @
             username (gis_conn (self w)) @ ''/items/'' @ wsid @ ''/update'')
         [(''f'', AStr ''json''), (''title'', AStr (title (self w))),
          (''text'', ADumps (props (self (snd (save srv w)))))]]
    \<and> props (self (snd (save srv w))) =
        JObj (AList.update ''url'' (JStr (workspaceURL (self w)))
             (AList.update ''name'' (JStr (workbookID (self w)))
             (AList.update ''owner'' (JStr (username (gis_conn (self w))))
             (AList.update ''id'' (JStr wsid) kvs))))
    \<and> getitem (props (self (snd (save srv w)))) (KStr ''id'') = Inr (JStr wsid)
    \<and> getitem (props (self (snd (save srv w)))) (KStr ''owner'') = Inr (JStr (username (gis_conn (self w))))
    \<and> getitem (props (self (snd (save srv w)))) (KStr ''name'') = Inr (JStr (workbookID (self w)))
    \<and> getitem (props (self (snd (save srv w)))) (KStr ''url'') = Inr (JStr (workspaceURL (self w)))"
proof -
  from save_run [OF assms, of srv] obtain r where
    "save srv w = (r,
     w\<lparr>sent := sent w @
        [Post (lower (gis_url (gis_conn (self w))) @ ''/sharing/rest/content/users/'' @
               username (gis_conn (self w)) @ ''/items/'' @ wsid @ ''/update'')
           [(''f'', AStr ''json''), (''title'', AStr (title (self w))),
            (''text'', ADumps (JObj (AList.update ''url'' (JStr (workspaceURL (self w)))
             (AList.update ''name'' (JStr (workbookID (self w)))
             (AList.update ''owner'' (JStr (username (gis_conn (self w))))
             (AList.update ''id'' (JStr wsid) kvs))))))]],
       self := (self w)\<lparr>props := JObj (AList.update ''url'' (JStr (workspaceURL (self w)))
             (AList.update ''name'' (JStr (workbookID (self w)))
             (AList.update ''owner'' (JStr (username (gis_conn (self w))))
             (AList.update ''id'' (JStr wsid) kvs))))\<rparr>\<rparr>)"
    by blast
  then show ?thesis by (simp add: update_conv')
qed

theorem save_posts_props_witness:
  "props (self (on demo_workbook)) = JObj demo_items
   \<and> workspaceID (self (on demo_workbook)) = JStr ''item1''
   \<and> sent (snd (save demo_server (on demo_workbook))) = sent (on demo_workbook) @
      [Post (lower (gis_url (gis_conn (self (on demo_workbook)))) @ ''/sharing/rest/content/users/'' @
             username (gis_conn (self (on demo_workbook))) @ ''/items/'' @ ''item1'' @ ''/update'')
         [(''f'', AStr ''json''), (''title'', AStr (title (self (on demo_workbook)))),
          (''text'', ADumps (props (self (snd (save demo_server (on demo_workbook))))))]]
   \<and> getitem (props (self (snd (save demo_server (on demo_workbook))))) (KStr ''id'') = Inr (JStr ''item1'')"
proof -
  have a: "props (self (on demo_workbook)) = JObj demo_items"
    by (simp add: on_def demo_workbook_def init_def demo_props_def)
  have b: "workspaceID (self (on demo_workbook)) = JStr ''item1''"
    by (simp add: on_def demo_workbook_def init_def)
  from save_posts_props [OF a b, of demo_server] a b show ?thesis by blast
qed

subsection \<open>Datasets stored by add_feature_layer and aggregate\<close>

lemma get_path_append:
  "get_path x (ks @ ks') = (case get_path x ks of Inl e \<Rightarrow> Inl e | Inr y \<Rightarrow> get_path y ks')"
  by (induction ks arbitrary: x) (auto split: sum.splits)

lemma mutate_props_Inr:
  "mutate_props ks f w = (Inr u, w') \<longleftrightarrow>
     (\<exists>p. modify_at ks f (props (self w)) = Inr p \<and> w' = w\<lparr>self := (self w)\<lparr>props := p\<rparr>\<rparr>)"
  by (auto simp: mutate_props_def split: sum.splits)

lemma read_props_Inr:
  "read_props ks w = (Inr v, w') \<longleftrightarrow> (get_path (props (self w)) ks = Inr v \<and> w' = w)"
  by (auto simp: read_props_def)

lemma lift_Inr: "lift r w = (Inr v, w') \<longleftrightarrow> (r = Inr v \<and> w' = w)"
  by (auto simp: lift_def)

lemma setitem_isl_str: "isl (setitem k v (JStr s))"
  by simp

lemma append_isl_str: "isl (append v (JStr s))"
  by simp

lemma setitem_at_path:
  assumes "modify_at ks (setitem k v) x = Inr x'"
  shows "\<exists>kvs. get_path x ks = Inr (JObj kvs)
           \<and> get_path x' ks = Inr (JObj (AList.update k v kvs))
           \<and> get_path x' (ks @ [KStr k]) = Inr v"
proof -
  from modify_at_get [of "setitem k v", OF _ assms] obtain y y' where
    y: "get_path x ks = Inr y" "setitem k v y = Inr y'" "get_path x' ks = Inr y'"
    by auto
  from y(2) obtain kvs where "y = JObj kvs" "y' = JObj (AList.update k v kvs)"
    by (cases y) auto
  with y show ?thesis by (auto simp: get_path_append map_of_update_same)
qed

lemma append_at_path:
  assumes "modify_at ks (append v) x = Inr x'"
  shows "\<exists>xs. get_path x ks = Inr (JList xs) \<and> get_path x' ks = Inr (JList (xs @ [v]))"
proof -
  from modify_at_get [of "append v", OF _ assms] obtain y y' where
    y: "get_path x ks = Inr y" "append v y = Inr y'" "get_path x' ks = Inr y'"
    by auto
  from y(2) obtain xs where "y = JList xs" "y' = JList (xs @ [v])"
    by (cases y) auto
  with y show ?thesis by auto
qed

lemma add_feature_layer_Inr:
  assumes "add_feature_layer srv rnd lyr sublayer w = (Inr name, w')"
  shows "\<exists>resp data ext p1 p2 p3.
      name = lyr_title lyr @ ''_'' @ percent_0x 7 rnd
    \<and> srv (Post (workspaceURL (self w) @ ''/execute'')
               (add_data_post (lyr_url lyr @ ''/'' @ str_of_nat sublayer) name)) = Inr resp
    \<and> getitem resp (KStr name) = Inr data
    \<and> layer_extent lyr sublayer = Inr ext
    \<and> modify_at [KStr ''pages'', KIdx 0, KStr ''model'', KStr ''items'']
         (append (JObj
            [(''operation'', JStr ''add-data''),
             (''params'', JObj [(''data'', JObj
                [(''type'', JStr ''feature-layer''),
                 (''url'', JStr (lyr_url lyr @ ''/'' @ str_of_nat sublayer))])]),
             (''outDataset'', JStr name)])) (props (self w)) = Inr p1
    \<and> modify_at [KStr ''pages'', KIdx 0, KStr ''contents'']
         (append (JObj [(''dataset'', JStr name)])) p1 = Inr p2
    \<and> modify_at [KStr ''workspace'', KStr ''datasets'']
         (setitem name (source_entry data lyr ext)) p2 = Inr p3
    \<and> props (self w') = p3"
  using assms unfolding add_feature_layer_def Let_def try_except_def
  by (auto simp: py_bind_Inr py_bind_Inl mutate_props_Inr read_props_Inr lift_Inr
                 py_return_def py_raise_def attr_def call_def print_exc_def
           simp del: modify_at.simps getitem.simps
           split: prod.splits sum.splits)


lemma frame_top:
  assumes "modify_at (KStr a # ks) f x = Inr x'" and "a \<noteq> b"
  shows "get_path x' (KStr b # ks') = get_path x (KStr b # ks')"
proof -
  from assms(1) have "modify_at ([] @ KStr a # ks) f x = Inr x'" by (simp only: append_Nil)
  from modify_at_frame [OF this assms(2), of ks'] show ?thesis by (simp only: append_Nil)
qed

lemma frame_page:
  assumes "modify_at (k1 # k2 # KStr a # ks) f x = Inr x'" and "a \<noteq> b"
  shows "get_path x' (k1 # k2 # KStr b # ks') = get_path x (k1 # k2 # KStr b # ks')"
proof -
  from assms(1) have "modify_at ([k1, k2] @ KStr a # ks) f x = Inr x'"
    by (simp only: append_Cons append_Nil)
  from modify_at_frame [OF this assms(2), of ks'] show ?thesis
    by (simp only: append_Cons append_Nil)
qed

lemma key_of_getitem:
  assumes "get_path x (ks @ [KStr k]) = Inr v"
  shows "\<exists>kvs. get_path x ks = Inr (JObj kvs) \<and> k \<in> fst ` set kvs"
proof -
  from assms obtain y where y: "get_path x ks = Inr y" "getitem y (KStr k) = Inr v"
    by (auto simp: get_path_append split: sum.splits)
  from y(2) obtain kvs where "y = JObj kvs" "map_of kvs k = Some v"
    by (cases y) (auto split: option.splits)
  with y(1) show ?thesis by (auto dest: map_of_SomeD intro: rev_image_eqI)
qed

lemma aggregate_Inr:
  assumes "aggregate rnd in_dataset gf gft st sf sft out_name w = (Inr out, w')"
  shows "\<exists>in_data_id p1 p2.
      out = slice_to in_dataset (str_find in_dataset ''_'') @ ''_'' @ percent_0x 7 rnd
    \<and> modify_at [KStr ''pages'', KIdx 0, KStr ''model'', KStr ''items'']
         (append (aggregate_item in_dataset gf st sf (lower sf @ ''_'' @ st) out))
         (props (self w)) = Inr p1
    \<and> get_path p1 [KStr ''workspace'', KStr ''datasets'', KStr in_dataset, KStr ''data'']
         = Inr in_data_id
    \<and> modify_at [KStr ''workspace'', KStr ''datasets'']
         (setitem out (aggregate_entry in_data_id gf gft st sf (lower sf @ ''_'' @ st)
                         (aggregate_out_type st sft) out (aggregate_shown_name out_name out)
                         (slice_to in_dataset (str_find in_dataset ''_'')))) p1 = Inr p2
    \<and> props (self w') = p2"
  using assms unfolding aggregate_def Let_def
  by (cases out_name)
     (auto simp: py_bind_Inr mutate_props_Inr read_props_Inr py_return_def
                 aggregate_out_type_def aggregate_shown_name_def
           simp del: modify_at.simps get_path.simps getitem.simps
           split: prod.splits sum.splits)

lemma add_feature_layer_stores:
  assumes "add_feature_layer srv rnd lyr sublayer w = (Inr name, w')"
  shows "\<exists>ds resp data ext.
      get_path (props (self w')) [KStr ''workspace'', KStr ''datasets''] = Inr (JObj ds)
    \<and> name \<in> fst ` set ds
    \<and> srv (Post (workspaceURL (self w) @ ''/execute'')
               (add_data_post (lyr_url lyr @ ''/'' @ str_of_nat sublayer) name)) = Inr resp
    \<and> getitem resp (KStr name) = Inr data
    \<and> layer_extent lyr sublayer = Inr ext
    \<and> get_path (props (self w')) [KStr ''workspace'', KStr ''datasets'', KStr name]
         = Inr (source_entry data lyr ext)"
proof -
  from add_feature_layer_Inr [OF assms] obtain resp data ext p2 where
    r: "srv (Post (workspaceURL (self w) @ ''/execute'')
               (add_data_post (lyr_url lyr @ ''/'' @ str_of_nat sublayer) name)) = Inr resp"
       "getitem resp (KStr name) = Inr data" "layer_extent lyr sublayer = Inr ext"
    and m: "modify_at [KStr ''workspace'', KStr ''datasets'']
         (setitem name (source_entry data lyr ext)) p2 = Inr (props (self w'))"
    by blast
  from setitem_at_path [OF m] obtain kvs where
    k: "get_path (props (self w')) [KStr ''workspace'', KStr ''datasets'']
          = Inr (JObj (AList.update name (source_entry data lyr ext) kvs))"
       "get_path (props (self w')) ([KStr ''workspace'', KStr ''datasets''] @ [KStr name])
          = Inr (source_entry data lyr ext)"
    by blast
  have "name \<in> fst ` set (AList.update name (source_entry data lyr ext) kvs)"
    by (simp add: keys_update)
  with r k show ?thesis by (simp only: append_Cons append_Nil) blast
qed

lemma aggregate_stores:
  assumes "aggregate rnd in_dataset gf gft st sf sft out_name w = (Inr out, w')"
  shows "\<exists>ds in_data_id entry.
      get_path (props (self w')) [KStr ''workspace'', KStr ''datasets''] = Inr (JObj ds)
    \<and> out \<in> fst ` set ds
    \<and> get_path (props (self w)) [KStr ''workspace'', KStr ''datasets'', KStr in_dataset, KStr ''data'']
         = Inr in_data_id
    \<and> get_path (props (self w')) [KStr ''workspace'', KStr ''datasets'', KStr out] = Inr entry
    \<and> get_path entry [KStr ''data'', KStr ''tools'']
         = Inr (JList [aggregate_tool in_data_id gf st sf (lower sf @ ''_'' @ st) out])"
proof -
  define ty where "ty = aggregate_out_type st sft"
  define nm where "nm = aggregate_shown_name out_name out"
  from aggregate_Inr [OF assms] obtain in_data_id p1 p2 where
    m1: "modify_at [KStr ''pages'', KIdx 0, KStr ''model'', KStr ''items'']
         (append (aggregate_item in_dataset gf st sf (lower sf @ ''_'' @ st) out))
         (props (self w)) = Inr p1"
    and g: "get_path p1 [KStr ''workspace'', KStr ''datasets'', KStr in_dataset, KStr ''data'']
         = Inr in_data_id"
    and m2: "modify_at [KStr ''workspace'', KStr ''datasets'']
         (setitem out (aggregate_entry in_data_id gf gft st sf (lower sf @ ''_'' @ st) ty out nm
                         (slice_to in_dataset (str_find in_dataset ''_'')))) p1 = Inr p2"
    and w': "props (self w') = p2"
    unfolding ty_def nm_def by blast
  let ?entry = "aggregate_entry in_data_id gf gft st sf (lower sf @ ''_'' @ st) ty out nm
                         (slice_to in_dataset (str_find in_dataset ''_''))"
  have g0: "get_path (props (self w)) [KStr ''workspace'', KStr ''datasets'', KStr in_dataset, KStr ''data'']
         = Inr in_data_id"
    using frame_top [OF m1, of "''workspace''"] g by simp
  from setitem_at_path [OF m2] obtain kvs where
    k: "get_path p2 [KStr ''workspace'', KStr ''datasets''] = Inr (JObj (AList.update out ?entry kvs))"
       "get_path p2 ([KStr ''workspace'', KStr ''datasets''] @ [KStr out]) = Inr ?entry"
    by blast
  have "out \<in> fst ` set (AList.update out ?entry kvs)"
    by (simp add: keys_update)
  moreover have "get_path ?entry [KStr ''data'', KStr ''tools'']
         = Inr (JList [aggregate_tool in_data_id gf st sf (lower sf @ ''_'' @ st) out])"
    by (simp add: aggregate_entry_def)
  moreover have "props (self w') = p2" using w' by simp
  ultimately show ?thesis using g0 k by (simp only: append_Cons append_Nil) blast
qed

text \<open>
  Claim C6. After a successful add_feature_layer or aggregate the returned name is a key
  of \<^verbatim>\<open>props['workspace']['datasets']\<close>. The entry under it holds, for add_feature_layer,
  the data the server returned under that name, the layer's id as owner, the layer's
  extent and origin True; for aggregate, a data object whose first tool is the aggregate
  operation over the data of the input dataset, writing to the returned name.
\<close>

theorem added_dataset_is_stored:
  "(add_feature_layer srv rnd lyr sublayer w = (Inr name, w') \<longrightarrow>
      (\<exists>ds resp data ext.
          get_path (props (self w')) [KStr ''workspace'', KStr ''datasets''] = Inr (JObj ds)
        \<and> name \<in> fst ` set ds
        \<and> srv (Post (workspaceURL (self w) @ ''/execute'')
                   (add_data_post (lyr_url lyr @ ''/'' @ str_of_nat sublayer) name)) = Inr resp
        \<and> getitem resp (KStr name) = Inr data
        \<and> layer_extent lyr sublayer = Inr ext
        \<and> get_path (props (self w')) [KStr ''workspace'', KStr ''datasets'', KStr name]
             = Inr (JObj [(''data'', data), (''owner'', JStr (lyr_id lyr)),
                          (''fields'', JObj [(''shape'', JObj [(''alias'', JStr ''Location'')])]),
                          (''extent'', ext), (''origin'', JBool True)])))
   \<and> (aggregate rnd2 in_dataset gf gft st sf sft out_name v = (Inr out, v') \<longrightarrow>
      (\<exists>ds in_data_id entry.
          get_path (props (self v')) [KStr ''workspace'', KStr ''datasets''] = Inr (JObj ds)
        \<and> out \<in> fst ` set ds
        \<and> get_path (props (self v)) [KStr ''workspace'', KStr ''datasets'', KStr in_dataset,
                                       KStr ''data''] = Inr in_data_id
        \<and> get_path (props (self v')) [KStr ''workspace'', KStr ''datasets'', KStr out] = Inr entry
        \<and> get_path entry [KStr ''data'', KStr ''tools'', KIdx 0, KStr ''name'']
             = Inr (JStr ''aggregate'')
        \<and> get_path entry [KStr ''data'', KStr ''tools'', KIdx 0, KStr ''params'', KStr ''dataset'']
             = Inr in_data_id
        \<and> get_path entry [KStr ''data'', KStr ''tools'', KIdx 0, KStr ''outDataset'']
             = Inr (JStr out)))"
proof (intro conjI impI)
  assume "add_feature_layer srv rnd lyr sublayer w = (Inr name, w')"
  from add_feature_layer_stores [OF this]
  show "\<exists>ds resp data ext.
          get_path (props (self w')) [KStr ''workspace'', KStr ''datasets''] = Inr (JObj ds)
        \<and> name \<in> fst ` set ds
        \<and> srv (Post (workspaceURL (self w) @ ''/execute'')
                   (add_data_post (lyr_url lyr @ ''/'' @ str_of_nat sublayer) name)) = Inr resp
        \<and> getitem resp (KStr name) = Inr data
        \<and> layer_extent lyr sublayer = Inr ext
        \<and> get_path (props (self w')) [KStr ''workspace'', KStr ''datasets'', KStr name]
             = Inr (JObj [(''data'', data), (''owner'', JStr (lyr_id lyr)),
                          (''fields'', JObj [(''shape'', JObj [(''alias'', JStr ''Location'')])]),
                          (''extent'', ext), (''origin'', JBool True)])"
    unfolding source_entry_def .
next
  assume "aggregate rnd2 in_dataset gf gft st sf sft out_name v = (Inr out, v')"
  from aggregate_stores [OF this] obtain ds in_data_id entry where
    f: "get_path (props (self v')) [KStr ''workspace'', KStr ''datasets''] = Inr (JObj ds)"
       "out \<in> fst ` set ds"
       "get_path (props (self v)) [KStr ''workspace'', KStr ''datasets'', KStr in_dataset,
                                   KStr ''data''] = Inr in_data_id"
       "get_path (props (self v')) [KStr ''workspace'', KStr ''datasets'', KStr out] = Inr entry"
    and t: "get_path entry [KStr ''data'', KStr ''tools'']
         = Inr (JList [aggregate_tool in_data_id gf st sf (lower sf @ ''_'' @ st) out])"
    by blast
  have p: "get_path entry ([KStr ''data'', KStr ''tools''] @ ks)
      = get_path (JList [aggregate_tool in_data_id gf st sf (lower sf @ ''_'' @ st) out]) ks" for ks
    unfolding get_path_append t by simp
  have "get_path entry [KStr ''data'', KStr ''tools'', KIdx 0, KStr ''name'']
             = Inr (JStr ''aggregate'')"
    using p [of "[KIdx 0, KStr ''name'']"] by (simp add: aggregate_tool_def)
  moreover have "get_path entry [KStr ''data'', KStr ''tools'', KIdx 0, KStr ''params'', KStr ''dataset'']
             = Inr in_data_id"
    using p [of "[KIdx 0, KStr ''params'', KStr ''dataset'']"] by (simp add: aggregate_tool_def)
  moreover have "get_path entry [KStr ''data'', KStr ''tools'', KIdx 0, KStr ''outDataset'']
             = Inr (JStr out)"
    using p [of "[KIdx 0, KStr ''outDataset'']"] by (simp add: aggregate_tool_def)
  ultimately show "\<exists>ds in_data_id entry.
          get_path (props (self v')) [KStr ''workspace'', KStr ''datasets''] = Inr (JObj ds)
        \<and> out \<in> fst ` set ds
        \<and> get_path (props (self v)) [KStr ''workspace'', KStr ''datasets'', KStr in_dataset,
                                       KStr ''data''] = Inr in_data_id
        \<and> get_path (props (self v')) [KStr ''workspace'', KStr ''datasets'', KStr out] = Inr entry
        \<and> get_path entry [KStr ''data'', KStr ''tools'', KIdx 0, KStr ''name'']
             = Inr (JStr ''aggregate'')
        \<and> get_path entry [KStr ''data'', KStr ''tools'', KIdx 0, KStr ''params'', KStr ''dataset'']
             = Inr in_data_id
        \<and> get_path entry [KStr ''data'', KStr ''tools'', KIdx 0, KStr ''outDataset'']
             = Inr (JStr out)"
    using f by blast
qed

subsection \<open>Cards appended by add_map and add_chart\<close>

lemma add_map_Inr:
  assumes "add_map dataset w = (Inr u, w')"
  shows "\<exists>ld cards n ext p1 p2.
      get_path (props (self w)) [KStr ''workspace'', KStr ''datasets'', KStr dataset] = Inr ld
    \<and> truthy ld
    \<and> get_path (props (self w)) [KStr ''pages'', KIdx 0, KStr ''cards''] = Inr cards
    \<and> py_len cards = Inr n
    \<and> get_path (props (self w)) [KStr ''workspace'', KStr ''datasets'', KStr dataset,
                                   KStr ''extent''] = Inr ext
    \<and> modify_at [KStr ''pages'', KIdx 0, KStr ''cards''] (append (map_card n dataset ext))
         (props (self w)) = Inr p1
    \<and> modify_at [KStr ''pages'', KIdx 0, KStr ''layout''] (append (layout_entry n)) p1 = Inr p2
    \<and> props (self w') = p2"
  using assms unfolding add_map_def
  by (auto simp: py_bind_Inr py_bind_Inl mutate_props_Inr read_props_Inr lift_Inr
                 py_return_def py_raise_def print_line_def
           simp del: modify_at.simps get_path.simps getitem.simps
           split: prod.splits sum.splits if_splits)

lemma add_chart_Inr:
  assumes "add_chart rnd chart_type in_dataset gf gft st sf sft w = (Inr u, w')"
  shows "\<exists>cards n out w1 p2 p3.
      get_path (props (self w)) [KStr ''pages'', KIdx 0, KStr ''cards''] = Inr cards
    \<and> py_len cards = Inr n
    \<and> aggregate rnd in_dataset gf gft st sf sft
         (Some (title_case chart_type @ '' Chart '' @ str_of_nat (n + 1))) w = (Inr out, w1)
    \<and> modify_at [KStr ''pages'', KIdx 0, KStr ''cards''] (append (chart_card n out chart_type))
         (props (self w1)) = Inr p2
    \<and> modify_at [KStr ''pages'', KIdx 0, KStr ''layout''] (append (layout_entry n)) p2 = Inr p3
    \<and> props (self w') = p3"
  using assms unfolding add_chart_def Let_def
  by (auto simp: py_bind_Inr mutate_props_Inr read_props_Inr lift_Inr
           simp del: modify_at.simps get_path.simps getitem.simps
           split: prod.splits sum.splits)

lemma add_map_card:
  assumes "add_map dataset w = (Inr u, w')"
  shows "\<exists>cs ds ext.
      get_path (props (self w)) [KStr ''pages'', KIdx 0, KStr ''cards''] = Inr (JList cs)
    \<and> get_path (props (self w')) [KStr ''pages'', KIdx 0, KStr ''cards'']
         = Inr (JList (cs @ [map_card (length cs) dataset ext]))
    \<and> get_path (props (self w)) [KStr ''workspace'', KStr ''datasets''] = Inr (JObj ds)
    \<and> get_path (props (self w')) [KStr ''workspace'', KStr ''datasets''] = Inr (JObj ds)
    \<and> dataset \<in> fst ` set ds"
proof -
  from add_map_Inr [OF assms] obtain ld cards n ext p1 where
    ld: "get_path (props (self w)) [KStr ''workspace'', KStr ''datasets'', KStr dataset] = Inr ld"
    and c: "get_path (props (self w)) [KStr ''pages'', KIdx 0, KStr ''cards''] = Inr cards"
           "py_len cards = Inr n"
    and m1: "modify_at [KStr ''pages'', KIdx 0, KStr ''cards''] (append (map_card n dataset ext))
         (props (self w)) = Inr p1"
    and m2: "modify_at [KStr ''pages'', KIdx 0, KStr ''layout''] (append (layout_entry n)) p1
         = Inr (props (self w'))"
    by blast
  from append_at_path [OF m1] c obtain cs where
    cs: "cards = JList cs" "get_path p1 [KStr ''pages'', KIdx 0, KStr ''cards'']
         = Inr (JList (cs @ [map_card n dataset ext]))"
    by auto
  from cs(1) c(2) have n: "n = length cs" by simp
  have c': "get_path (props (self w')) [KStr ''pages'', KIdx 0, KStr ''cards'']
         = Inr (JList (cs @ [map_card n dataset ext]))"
    using frame_page [OF m2, of "''cards''" "[]"] cs(2) by simp
  from ld have "get_path (props (self w)) ([KStr ''workspace'', KStr ''datasets''] @ [KStr dataset]) = Inr ld"
    by (simp only: append_Cons append_Nil)
  from key_of_getitem [OF this] obtain ds where
    ds: "get_path (props (self w)) [KStr ''workspace'', KStr ''datasets''] = Inr (JObj ds)"
        "dataset \<in> fst ` set ds"
    by blast
  have "get_path (props (self w')) [KStr ''workspace'', KStr ''datasets'']
      = get_path p1 [KStr ''workspace'', KStr ''datasets'']"
    using frame_top [OF m2, of "''workspace''" "[KStr ''datasets'']"] by simp
  also have "\<dots> = get_path (props (self w)) [KStr ''workspace'', KStr ''datasets'']"
    using frame_top [OF m1, of "''workspace''" "[KStr ''datasets'']"] by simp
  finally have "get_path (props (self w')) [KStr ''workspace'', KStr ''datasets''] = Inr (JObj ds)"
    using ds(1) by simp
  with c cs c' n ds show ?thesis by blast
qed

lemma add_chart_card:
  assumes "add_chart rnd chart_type in_dataset gf gft st sf sft w = (Inr u, w')"
  shows "\<exists>cs ds out.
      get_path (props (self w)) [KStr ''pages'', KIdx 0, KStr ''cards''] = Inr (JList cs)
    \<and> get_path (props (self w')) [KStr ''pages'', KIdx 0, KStr ''cards'']
         = Inr (JList (cs @ [chart_card (length cs) out chart_type]))
    \<and> get_path (props (self w')) [KStr ''workspace'', KStr ''datasets''] = Inr (JObj ds)
    \<and> out \<in> fst ` set ds"
proof -
  from add_chart_Inr [OF assms] obtain cards n out w1 p2 where
    c: "get_path (props (self w)) [KStr ''pages'', KIdx 0, KStr ''cards''] = Inr cards"
       "py_len cards = Inr n"
    and a: "aggregate rnd in_dataset gf gft st sf sft
         (Some (title_case chart_type @ '' Chart '' @ str_of_nat (n + 1))) w = (Inr out, w1)"
    and m1: "modify_at [KStr ''pages'', KIdx 0, KStr ''cards''] (append (chart_card n out chart_type))
         (props (self w1)) = Inr p2"
    and m2: "modify_at [KStr ''pages'', KIdx 0, KStr ''layout''] (append (layout_entry n)) p2
         = Inr (props (self w'))"
    by blast
  from aggregate_Inr [OF a] obtain in_data_id pa where
    a1: "modify_at [KStr ''pages'', KIdx 0, KStr ''model'', KStr ''items'']
         (append (aggregate_item in_dataset gf st sf (lower sf @ ''_'' @ st) out))
         (props (self w)) = Inr pa"
    and a2: "modify_at [KStr ''workspace'', KStr ''datasets'']
         (setitem out (aggregate_entry in_data_id gf gft st sf (lower sf @ ''_'' @ st)
                         (aggregate_out_type st sft) out
                         (aggregate_shown_name (Some (title_case chart_type @ '' Chart '' @ str_of_nat (n + 1))) out)
                         (slice_to in_dataset (str_find in_dataset ''_'')))) pa = Inr (props (self w1))"
    by blast
  have "get_path (props (self w1)) [KStr ''pages'', KIdx 0, KStr ''cards'']
      = get_path pa [KStr ''pages'', KIdx 0, KStr ''cards'']"
    using frame_top [OF a2, of "''pages''" "[KIdx 0, KStr ''cards'']"] by simp
  also have "\<dots> = get_path (props (self w)) [KStr ''pages'', KIdx 0, KStr ''cards'']"
    using frame_page [OF a1, of "''cards''" "[]"] by simp
  finally have c1: "get_path (props (self w1)) [KStr ''pages'', KIdx 0, KStr ''cards''] = Inr cards"
    using c(1) by simp
  from append_at_path [OF m1] c1 obtain cs where
    cs: "cards = JList cs" "get_path p2 [KStr ''pages'', KIdx 0, KStr ''cards'']
         = Inr (JList (cs @ [chart_card n out chart_type]))"
    by auto
  from cs(1) c(2) have n: "n = length cs" by simp
  have c': "get_path (props (self w')) [KStr ''pages'', KIdx 0, KStr ''cards'']
         = Inr (JList (cs @ [chart_card n out chart_type]))"
    using frame_page [OF m2, of "''cards''" "[]"] cs(2) by simp
  from aggregate_stores [OF a] obtain ds where
    ds: "get_path (props (self w1)) [KStr ''workspace'', KStr ''datasets''] = Inr (JObj ds)"
        "out \<in> fst ` set ds"
    by blast
  have "get_path (props (self w')) [KStr ''workspace'', KStr ''datasets'']
      = get_path p2 [KStr ''workspace'', KStr ''datasets'']"
    using frame_top [OF m2, of "''workspace''" "[KStr ''datasets'']"] by simp
  also have "\<dots> = get_path (props (self w1)) [KStr ''workspace'', KStr ''datasets'']"
    using frame_top [OF m1, of "''workspace''" "[KStr ''datasets'']"] by simp
  finally have "get_path (props (self w')) [KStr ''workspace'', KStr ''datasets''] = Inr (JObj ds)"
    using ds(1) by simp
  with c cs c' n ds show ?thesis by blast
qed

lemma run_pair: "fst (m w) = r \<Longrightarrow> m w = (r, snd (m w))"
  by (cases "m w") simp

theorem added_dataset_is_stored_witness:
  "add_feature_layer demo_server 2748 demo_layer 0 (on demo_workbook)
     = (Inr ''Roads_0000abc'', snd (add_feature_layer demo_server 2748 demo_layer 0 (on demo_workbook)))
   \<and> aggregate 17 ''Roads_0000abc'' ''kind'' ''esriFieldTypeString'' ''count'' ''LEN''
         ''esriFieldTypeDouble'' None (on demo_workbook)
     = (Inr ''Roads_0000011'', snd (aggregate 17 ''Roads_0000abc'' ''kind'' ''esriFieldTypeString''
         ''count'' ''LEN'' ''esriFieldTypeDouble'' None (on demo_workbook)))
   \<and> (\<exists>ds. get_path (props (self (snd (add_feature_layer demo_server 2748 demo_layer 0
                (on demo_workbook))))) [KStr ''workspace'', KStr ''datasets''] = Inr (JObj ds)
          \<and> ''Roads_0000abc'' \<in> fst ` set ds)
   \<and> (\<exists>ds. get_path (props (self (snd (aggregate 17 ''Roads_0000abc'' ''kind''
                ''esriFieldTypeString'' ''count'' ''LEN'' ''esriFieldTypeDouble'' None
                (on demo_workbook))))) [KStr ''workspace'', KStr ''datasets''] = Inr (JObj ds)
          \<and> ''Roads_0000011'' \<in> fst ` set ds)"
proof -
  have "fst (add_feature_layer demo_server 2748 demo_layer 0 (on demo_workbook)) = Inr ''Roads_0000abc''"
    by code_simp
  then have a: "add_feature_layer demo_server 2748 demo_layer 0 (on demo_workbook)
     = (Inr ''Roads_0000abc'', snd (add_feature_layer demo_server 2748 demo_layer 0 (on demo_workbook)))"
    by (rule run_pair)
  have "fst (aggregate 17 ''Roads_0000abc'' ''kind'' ''esriFieldTypeString'' ''count'' ''LEN''
         ''esriFieldTypeDouble'' None (on demo_workbook)) = Inr ''Roads_0000011''"
    by code_simp
  then have b: "aggregate 17 ''Roads_0000abc'' ''kind'' ''esriFieldTypeString'' ''count'' ''LEN''
         ''esriFieldTypeDouble'' None (on demo_workbook)
     = (Inr ''Roads_0000011'', snd (aggregate 17 ''Roads_0000abc'' ''kind'' ''esriFieldTypeString''
         ''count'' ''LEN'' ''esriFieldTypeDouble'' None (on demo_workbook)))"
    by (rule run_pair)
  from added_dataset_is_stored [of demo_server 2748 demo_layer 0 "on demo_workbook" "''Roads_0000abc''"
      "snd (add_feature_layer demo_server 2748 demo_layer 0 (on demo_workbook))"
      17 "''Roads_0000abc''" "''kind''" "''esriFieldTypeString''" "''count''" "''LEN''"
      "''esriFieldTypeDouble''" None "on demo_workbook" "''Roads_0000011''"
      "snd (aggregate 17 ''Roads_0000abc'' ''kind'' ''esriFieldTypeString''
         ''count'' ''LEN'' ''esriFieldTypeDouble'' None (on demo_workbook))"] a b
  show ?thesis by blast
qed

subsection \<open>The requests of each operation\<close>

lemma last_segment_append:
  "CHR ''/'' \<in> set ys \<Longrightarrow> last_segment (xs @ ys) = last_segment ys"
proof -
  assume "CHR ''/'' \<in> set ys"
  then have "CHR ''/'' \<in> set (rev ys)" by simp
  then have "takeWhile (\<lambda>c. c \<noteq> CHR ''/'') (rev ys @ rev xs) = takeWhile (\<lambda>c. c \<noteq> CHR ''/'') (rev ys)"
    by (rule takeWhile_append1) simp
  then show ?thesis by (simp add: last_segment_def)
qed

lemma last_segment_Cons:
  "CHR ''/'' \<in> set ys \<Longrightarrow> last_segment (c # ys) = last_segment ys"
  using last_segment_append [of ys "[c]"] by simp

lemma last_segment_slash:
  "CHR ''/'' \<notin> set seg \<Longrightarrow> last_segment (CHR ''/'' # seg) = seg"
proof -
  assume a: "CHR ''/'' \<notin> set seg"
  then have "takeWhile (\<lambda>c. c \<noteq> CHR ''/'') (rev seg @ [CHR ''/'']) = rev seg"
    by (subst takeWhile_append2) auto
  then show ?thesis by (simp add: last_segment_def)
qed

lemmas last_segment_simps = last_segment_append last_segment_Cons last_segment_slash

lemma sends_only_mono: "sends_only P m \<Longrightarrow> (\<And>r. P r \<Longrightarrow> Q r) \<Longrightarrow> sends_only Q m"
  unfolding sends_only_def list_all_iff by blast

lemma sends_only_return: "sends_only P (py_return v)"
  by (simp add: sends_only_def py_return_def)

lemma sends_only_raise: "sends_only P (py_raise e)"
  by (simp add: sends_only_def py_raise_def)

lemma sends_only_lift: "sends_only P (lift r)"
  by (simp add: sends_only_def lift_def)

lemma sends_only_attr: "sends_only P (attr f)"
  by (simp add: sends_only_def attr_def)

lemma sends_only_read: "sends_only P (read_props ks)"
  by (simp add: sends_only_def read_props_def)

lemma sends_only_mutate: "sends_only P (mutate_props ks f)"
  by (simp add: sends_only_def mutate_props_def split: sum.splits)

lemma sends_only_print: "sends_only P (print_line msg)"
  by (simp add: sends_only_def print_line_def)

lemma sends_only_call: "P rq \<Longrightarrow> sends_only P (call srv rq)"
  by (simp add: sends_only_def call_def)

lemma sends_only_bind:
  assumes "sends_only P m" and "\<And>a. sends_only P (f a)"
  shows "sends_only P (py_bind m f)"
  unfolding sends_only_def
proof
  fix s
  from assms(1) obtain rs where rs: "sent (snd (m s)) = sent s @ rs" "list_all P rs"
    unfolding sends_only_def by blast
  show "\<exists>rs. sent (snd (py_bind m f s)) = sent s @ rs \<and> list_all P rs"
  proof (cases "m s")
    case (Pair r s')
    show ?thesis
    proof (cases r)
      case (Inl e)
      with Pair rs show ?thesis by (auto simp: py_bind_def)
    next
      case (Inr a)
      from assms(2) [of a] obtain rs' where "sent (snd (f a s')) = sent s' @ rs'" "list_all P rs'"
        unfolding sends_only_def by blast
      with Pair Inr rs have "sent (snd (py_bind m f s)) = sent s @ (rs @ rs')" "list_all P (rs @ rs')"
        by (auto simp: py_bind_def)
      then show ?thesis by blast
    qed
  qed
qed

lemma sends_only_try:
  assumes "sends_only P m" and "\<And>e. sends_only P (h e)"
  shows "sends_only P (try_except m h)"
  unfolding sends_only_def
proof
  fix s
  from assms(1) obtain rs where rs: "sent (snd (m s)) = sent s @ rs" "list_all P rs"
    unfolding sends_only_def by blast
  show "\<exists>rs. sent (snd (try_except m h s)) = sent s @ rs \<and> list_all P rs"
  proof (cases "m s")
    case (Pair r s')
    show ?thesis
    proof (cases r)
      case (Inr a)
      with Pair rs show ?thesis by (auto simp: try_except_def)
    next
      case (Inl e)
      from assms(2) [of e] obtain rs' where "sent (snd (h e s')) = sent s' @ rs'" "list_all P rs'"
        unfolding sends_only_def by blast
      with Pair Inl rs have "sent (snd (try_except m h s)) = sent s @ (rs @ rs')" "list_all P (rs @ rs')"
        by (auto simp: try_except_def)
      then show ?thesis by blast
    qed
  qed
qed

lemma sends_only_if:
  "sends_only P a \<Longrightarrow> sends_only P b \<Longrightarrow> sends_only P (if c then a else b)"
  by simp

lemma sends_only_print_exc: "sends_only P (print_exc prefix e)"
  unfolding print_exc_def by (intro sends_only_bind sends_only_lift sends_only_print)

lemmas sends_only_intros = sends_only_bind sends_only_try sends_only_if sends_only_return
  sends_only_raise sends_only_lift sends_only_attr sends_only_read sends_only_mutate
  sends_only_print sends_only_print_exc

lemma sends_only_tools_loop: "sends_only P (tools_loop old_data new_data ds idxs)"
  by (induction idxs) (auto intro!: sends_only_intros)

lemma sends_only_datasets_loop: "sends_only P (datasets_loop old_data new_data dss)"
  by (induction dss) (auto intro!: sends_only_intros sends_only_tools_loop)

lemma sends_only_aggregate:
  "sends_only P (aggregate rnd in_dataset gf gft st sf sft out_name)"
  unfolding aggregate_def Let_def by (intro sends_only_intros)

lemma sends_only_add_chart:
  "sends_only P (add_chart rnd chart_type in_dataset gf gft st sf sft)"
  unfolding add_chart_def Let_def by (intro sends_only_intros sends_only_aggregate)

lemma sends_only_add_map: "sends_only P (add_map dataset)"
  unfolding add_map_def by (intro sends_only_intros)

lemma sends_only_new:
  "sends_only (\<lambda>r. endpoint_of r = CreateService \<or> endpoint_of r = UpdateItemEndpoint)
     (new srv rnd g ttl)"
  unfolding new_def Let_def
  by (intro sends_only_intros sends_only_call) (simp_all add: last_segment_simps)

lemma sends_only_open:
  "sends_only (\<lambda>r. endpoint_of r = GetItemData) (open_workbook srv existing_workbook)"
  unfolding open_workbook_def Let_def
  by (intro sends_only_intros sends_only_call) (simp_all add: last_segment_simps)

lemma sends_only_add_feature_layer:
  "sends_only (\<lambda>r. endpoint_of r = ExecuteTool) (add_feature_layer srv rnd lyr sublayer)"
  unfolding add_feature_layer_def Let_def
  by (intro sends_only_intros sends_only_call) (simp_all add: last_segment_simps)

lemma sends_only_update_dataset:
  "sends_only (\<lambda>r. endpoint_of r = ExecuteTool) (update_dataset srv lyr sublayer)"
  unfolding update_dataset_def Let_def
  by (intro sends_only_intros sends_only_call sends_only_datasets_loop)
     (simp_all add: last_segment_simps)

lemma sends_only_save:
  "sends_only (\<lambda>r. endpoint_of r = UpdateItemEndpoint) (save srv)"
  unfolding save_def Let_def
  by (intro sends_only_intros sends_only_call) (simp_all add: last_segment_simps)

text \<open>
  Claim C5. The requests of every operation go to the four endpoints the specification
  names: new calls create service and update item, open calls get item data,
  add_feature_layer and update_dataset call execute on the workspace, save calls update
  item; add_map, aggregate and add_chart send nothing.
\<close>

theorem only_four_endpoints:
  "sends_only (\<lambda>r. endpoint_of r = CreateService \<or> endpoint_of r = UpdateItemEndpoint)
     (new srv rnd g ttl)
   \<and> sends_only (\<lambda>r. endpoint_of r = GetItemData) (open_workbook srv existing_workbook)
   \<and> sends_only (\<lambda>r. endpoint_of r = ExecuteTool) (add_feature_layer srv rnd1 lyr sublayer)
   \<and> sends_only (\<lambda>r. endpoint_of r = ExecuteTool) (update_dataset srv lyr sublayer)
   \<and> sends_only (\<lambda>r. endpoint_of r = UpdateItemEndpoint) (save srv)
   \<and> sends_only (\<lambda>r. False) (add_map dataset)
   \<and> sends_only (\<lambda>r. False) (aggregate rnd2 in_dataset gf gft st sf sft out_name)
   \<and> sends_only (\<lambda>r. False) (add_chart rnd3 chart_type in_dataset gf gft st sf sft)"
  by (intro conjI sends_only_new sends_only_open sends_only_add_feature_layer
            sends_only_update_dataset sends_only_save sends_only_add_map sends_only_aggregate
            sends_only_add_chart)

theorem only_four_endpoints_witness:
  "list_all (\<lambda>r. endpoint_of r = ExecuteTool)
     (sent (snd (add_feature_layer demo_server 2748 demo_layer 0 (on demo_workbook))))
   \<and> list_all (\<lambda>r. endpoint_of r = UpdateItemEndpoint) (sent (snd (save demo_server (on demo_workbook))))
   \<and> sent (snd (add_map ''Roads_0000abc'' (on demo_workbook))) = []"
proof -
  have s: "sent (on demo_workbook) = []" by (simp add: on_def)
  from only_four_endpoints [of demo_server 0 demo_gis "''Demo''" "\<lparr>item_gis = demo_gis, item_title = ''Demo'', item_name = ''0000beef'', item_id = ''item1''\<rparr>"
      2748 demo_layer 0 "''Roads_0000abc''" 0 "''Roads_0000abc''" "''kind''" "''t''" "''count''" "''LEN''" "''t''" None
      0 "''bar''"]
  have a: "sends_only (\<lambda>r. endpoint_of r = ExecuteTool) (add_feature_layer demo_server 2748 demo_layer 0)"
    and b: "sends_only (\<lambda>r. endpoint_of r = UpdateItemEndpoint) (save demo_server)"
    and c: "sends_only (\<lambda>r. False) (add_map ''Roads_0000abc'')"
    by blast+
  from a s have "list_all (\<lambda>r. endpoint_of r = ExecuteTool)
     (sent (snd (add_feature_layer demo_server 2748 demo_layer 0 (on demo_workbook))))"
    unfolding sends_only_def by (metis append_Nil)
  moreover from b s have "list_all (\<lambda>r. endpoint_of r = UpdateItemEndpoint)
     (sent (snd (save demo_server (on demo_workbook))))"
    unfolding sends_only_def by (metis append_Nil)
  moreover from c s have "sent (snd (add_map ''Roads_0000abc'' (on demo_workbook))) = []"
    unfolding sends_only_def list_all_iff by (metis append_Nil ex_in_conv set_empty2)
  ultimately show ?thesis by blast
qed

subsection \<open>update_dataset and the references to the old data\<close>

text \<open>
  Claim C8 fails on the code. The dataset \<open>Joined_0000001\<close> of the sample workbook has two
  tools; the first has no \<^verbatim>\<open>params.dataset\<close>, the second refers to the data \<open>d1\<close> of the
  road layer. update_dataset succeeds and returns the layer's dataset name, the layer's
  entry holds the new data \<open>d2\<close>, but the second tool still refers to \<open>d1\<close>: the
  KeyError raised at the first tool is caught outside the loop over the tools, which
  ends the work on that dataset.
\<close>

theorem update_dataset_leaves_stale_reference:
  "get_path (props (self (on stale_workbook)))
       [KStr ''workspace'', KStr ''datasets'', KStr ''Roads_0000abc'', KStr ''data''] = Inr (JStr ''d1'')
   \<and> fst (update_dataset demo_server demo_layer 0 (on stale_workbook)) = Inr (Some ''Roads_0000abc'')
   \<and> get_path (props (self (snd (update_dataset demo_server demo_layer 0 (on stale_workbook)))))
       [KStr ''workspace'', KStr ''datasets'', KStr ''Roads_0000abc'', KStr ''data''] = Inr (JStr ''d2'')
   \<and> get_path (props (self (snd (update_dataset demo_server demo_layer 0 (on stale_workbook)))))
       [KStr ''workspace'', KStr ''datasets'', KStr ''Joined_0000001'', KStr ''data'', KStr ''tools'',
        KIdx 1, KStr ''params'', KStr ''dataset''] = Inr (JStr ''d1'')"
  by code_simp

subsection \<open>How each operation handles an error\<close>

lemma try_except_failed:
  "isl (fst (try_except m h s)) \<Longrightarrow> \<exists>e s1. try_except m h s = h e s1"
  by (cases "m s") (auto simp: try_except_def split: sum.splits)

lemma new_caught:
  "isl (fst (new srv rnd g ttl s)) \<Longrightarrow>
   \<exists>e s1. new srv rnd g ttl s
     = py_bind (print_exc ''Error creating workbook: '' e) (\<lambda>_. py_raise GenericException) s1"
  unfolding new_def Let_def by (rule try_except_failed)

lemma open_caught:
  "isl (fst (open_workbook srv existing_workbook s)) \<Longrightarrow>
   \<exists>e s1. open_workbook srv existing_workbook s
     = py_bind (print_exc ''Error retrieving workbook data: '' e) (\<lambda>_. py_raise GenericException) s1"
  unfolding open_workbook_def Let_def by (rule try_except_failed)

lemma add_feature_layer_caught:
  "isl (fst (add_feature_layer srv rnd lyr sublayer w)) \<Longrightarrow>
   \<exists>e w1. add_feature_layer srv rnd lyr sublayer w
     = py_bind (print_exc ''Error adding feature layer: '' e) (\<lambda>_. py_raise GenericException) w1"
  unfolding add_feature_layer_def Let_def by (rule try_except_failed)























lemma demo_model_items:
  "get_path (props (self (on demo_workbook))) [KStr ''pages'', KIdx 0, KStr ''model'', KStr ''items'']
     = Inr (JList [JObj
             [(''operation'', JStr ''add-data''),
              (''params'', JObj [(''data'', JObj
                 [(''type'', JStr ''feature-layer''), (''url'', JStr ''https://fs.example.org/roads/0'')])]),
              (''outDataset'', JStr ''Roads_0000abc'')]])"
  by (simp add: on_def demo_workbook_def init_def demo_props_def demo_items_def)

lemma demo_add_op:
  "filter_res (is_add_op (lyr_url demo_layer)) [JObj
             [(''operation'', JStr ''add-data''),
              (''params'', JObj [(''data'', JObj
                 [(''type'', JStr ''feature-layer''), (''url'', JStr ''https://fs.example.org/roads/0'')])]),
              (''outDataset'', JStr ''Roads_0000abc'')]]
   = Inr (JObj
             [(''operation'', JStr ''add-data''),
              (''params'', JObj [(''data'', JObj
                 [(''type'', JStr ''feature-layer''), (''url'', JStr ''https://fs.example.org/roads/0'')])]),
              (''outDataset'', JStr ''Roads_0000abc'')] # [])"
  by code_simp

lemma demo_no_rivers:
  "get_path (props (self (on demo_workbook)))
     [KStr ''workspace'', KStr ''datasets'', KStr ''Rivers_0000001''] = Inl KeyError"
  by (simp add: on_def demo_workbook_def init_def demo_props_def demo_items_def)

lemma failing_new: "isl (fst (new (failing_server HTTPError) 0 demo_gis ''Demo'' io0))"
  unfolding new_def Let_def
  by (simp add: run_defs failing_server_def print_exc_def)

lemma failing_open:
  "isl (fst (open_workbook (failing_server HTTPError)
      \<lparr>item_gis = demo_gis, item_title = ''Demo'', item_name = ''0000beef'', item_id = ''item1''\<rparr> io0))"
  unfolding open_workbook_def Let_def
  by (simp add: run_defs failing_server_def print_exc_def)

lemma failing_add_feature_layer:
  "isl (fst (add_feature_layer (failing_server HTTPError) 2748 demo_layer 0 (on demo_workbook)))"
  unfolding add_feature_layer_def Let_def
  by (simp add: run_defs failing_server_def print_exc_def)





















subsection \<open>The order of server calls and edits\<close>

lemma sends_nothing_sent: "sends_only (\<lambda>r. False) m \<Longrightarrow> sent (snd (m s)) = sent s"
  unfolding sends_only_def list_all_iff
  by (metis append_Nil2 ex_in_conv set_empty2)

lemma sent_after_call:
  assumes f: "\<And>u a. sends_only (\<lambda>r. False) (f u a)" and h: "\<And>e. sends_only (\<lambda>r. False) (h e)"
  shows "sent (snd (try_except (py_bind (attr g) (\<lambda>u. py_bind (call srv (rq u)) (f u))) h w))
         = sent w @ [rq (g (self w))]"
proof -
  let ?u = "g (self w)"
  let ?w1 = "w\<lparr>sent := sent w @ [rq ?u]\<rparr>"
  show ?thesis
  proof (cases "srv (rq ?u)")
    case (Inl e)
    then have "try_except (py_bind (attr g) (\<lambda>u. py_bind (call srv (rq u)) (f u))) h w = h e ?w1"
      by (simp add: try_except_def py_bind_def attr_def call_def)
    with sends_nothing_sent [OF h, of e ?w1] show ?thesis by simp
  next
    case (Inr a)
    obtain r w2 where r: "f ?u a ?w1 = (r, w2)" by (cases "f ?u a ?w1")
    from sends_nothing_sent [OF f, of ?u a ?w1] r have s2: "sent w2 = sent w @ [rq ?u]" by simp
    show ?thesis
    proof (cases r)
      case (Inr v)
      with \<open>srv (rq ?u) = Inr a\<close> r s2 show ?thesis
        by (simp add: try_except_def py_bind_def attr_def call_def)
    next
      case (Inl e)
      with \<open>srv (rq ?u) = Inr a\<close> r
      have "try_except (py_bind (attr g) (\<lambda>u. py_bind (call srv (rq u)) (f u))) h w = h e w2"
        by (simp add: try_except_def py_bind_def attr_def call_def)
      with sends_nothing_sent [OF h, of e w2] s2 show ?thesis by simp
    qed
  qed
qed

lemma add_feature_layer_sent:
  "sent (snd (add_feature_layer srv rnd lyr sublayer w)) = sent w @
     [Post (workspaceURL (self w) @ ''/execute'')
        (add_data_post (lyr_url lyr @ ''/'' @ str_of_nat sublayer)
                       (lyr_title lyr @ ''_'' @ percent_0x 7 rnd))]"
  unfolding add_feature_layer_def Let_def
  by (rule sent_after_call [where rq = "\<lambda>u. Post (u @ ''/execute'') (add_data_post
        (lyr_url lyr @ ''/'' @ str_of_nat sublayer) (lyr_title lyr @ ''_'' @ percent_0x 7 rnd))"])
     (intro sends_only_intros)+

lemma update_dataset_sent:
  assumes "get_path (props (self w)) [KStr ''pages'', KIdx 0, KStr ''model'', KStr ''items'']
             = Inr (JList items)"
    and "filter_res (is_add_op (lyr_url lyr)) items = Inr (x # rest)"
    and "getitem x (KStr ''outDataset'') = Inr (JStr name)"
    and "get_path x [KStr ''params'', KStr ''data'', KStr ''url''] = Inr (JStr url)"
  shows "sent (snd (update_dataset srv lyr sublayer w)) = sent w @
     [Post (workspaceURL (self w) @ ''/execute'') (add_data_post url name)]"
proof -
  have "update_dataset srv lyr sublayer w =
     try_except
            (py_bind (attr workspaceURL) (\<lambda>wurl.
             py_bind (call srv (Post (wurl @ ''/execute'') (add_data_post url name))) (\<lambda>resp.
             py_bind (read_props [KStr ''workspace'', KStr ''datasets'', KStr name, KStr ''data'']) (\<lambda>old_data.
             py_bind (lift (layer_extent lyr sublayer)) (\<lambda>my_extent.
             py_bind (lift (getitem resp (KStr name))) (\<lambda>new_data.
             py_bind (mutate_props [KStr ''workspace'', KStr ''datasets'']
                        (setitem name (source_entry new_data lyr my_extent))) (\<lambda>_.
             py_bind (read_props [KStr ''workspace'', KStr ''datasets'']) (\<lambda>dsets.
             py_bind (lift (py_keys dsets)) (\<lambda>ks.
             py_bind (datasets_loop old_data new_data ks) (\<lambda>_.
             py_return (Some name)))))))))))
            (\<lambda>e. if e = HTTPError
                 then py_bind (print_exc ''Error updating feature layer: '' e) (\<lambda>_. py_return None)
                 else py_raise e) w"
    using assms unfolding update_dataset_def Let_def
    by (simp add: py_bind_def [of "read_props _"] py_bind_def [of "lift _"] read_props_def
                  lift_def res_bind_def
             del: get_path.simps)
  then show ?thesis
    by (simp only:)
       (rule sent_after_call [where rq = "\<lambda>u. Post (u @ ''/execute'') (add_data_post url name)"],
        (intro sends_only_intros sends_only_datasets_loop)+)
qed

lemma new_sent:
  "\<exists>d rs. sent (snd (new srv rnd g ttl s)) = sent s @
     Post (portal_url g @ ''/sharing/rest/content/users/'' @ username g @ ''/createService'') d # rs"
  unfolding new_def Let_def
  by (auto simp: run_defs print_exc_def split: sum.splits)

lemma open_sent:
  "sent (snd (open_workbook srv existing_workbook s)) = sent s @
     [Get (lower (gis_url (item_gis existing_workbook)) @ ''/sharing/rest/content/items/'' @
           item_id existing_workbook @ ''/data'') [(''f'', AStr ''json'')]]"
  unfolding open_workbook_def Let_def
  by (auto simp: run_defs print_exc_def split: sum.splits)

lemma add_feature_layer_failing:
  "self (snd (add_feature_layer (failing_server e) rnd lyr sublayer w)) = self w"
  unfolding add_feature_layer_def Let_def
  by (simp add: run_defs failing_server_def print_exc_def)

lemma update_dataset_failing_props:
  "self (snd (update_dataset (failing_server e) lyr sublayer w)) = self w"
  unfolding update_dataset_def Let_def
  by (simp add: run_defs failing_server_def print_exc_def del: get_path.simps
           split: sum.splits)

text \<open>
  Claim C2, as the code has it. new, open and add_feature_layer always send a request,
  and so does update_dataset once it has found the add-data item of the layer.
  add_feature_layer and update_dataset edit props only after their request has been
  answered: when the server raises, the object is as it was. save, on a dict props with
  a string workspace ID, sends its request too, but sets \<^verbatim>\<open>id\<close>, \<^verbatim>\<open>owner\<close>, \<^verbatim>\<open>name\<close>
  and \<^verbatim>\<open>url\<close> before it: they are set although the server raises. add_map, aggregate
  and add_chart send nothing at all.
\<close>

theorem server_calls_and_edits:
  "(\<exists>d rs. sent (snd (new srv rnd g ttl s)) = sent s @
       Post (portal_url g @ ''/sharing/rest/content/users/'' @ username g @ ''/createService'') d # rs)
   \<and> sent (snd (open_workbook srv existing_workbook s)) = sent s @
       [Get (lower (gis_url (item_gis existing_workbook)) @ ''/sharing/rest/content/items/'' @
             item_id existing_workbook @ ''/data'') [(''f'', AStr ''json'')]]
   \<and> sent (snd (add_feature_layer srv rnd1 lyr sublayer w)) = sent w @
       [Post (workspaceURL (self w) @ ''/execute'')
          (add_data_post (lyr_url lyr @ ''/'' @ str_of_nat sublayer)
                         (lyr_title lyr @ ''_'' @ percent_0x 7 rnd1))]
   \<and> (get_path (props (self w)) [KStr ''pages'', KIdx 0, KStr ''model'', KStr ''items'']
          = Inr (JList items)
      \<and> filter_res (is_add_op (lyr_url lyr)) items = Inr (x # rest)
      \<and> getitem x (KStr ''outDataset'') = Inr (JStr name)
      \<and> get_path x [KStr ''params'', KStr ''data'', KStr ''url''] = Inr (JStr url) \<longrightarrow>
        sent (snd (update_dataset srv lyr sublayer w)) = sent w @
          [Post (workspaceURL (self w) @ ''/execute'') (add_data_post url name)])
   \<and> self (snd (add_feature_layer (failing_server err) rnd1 lyr sublayer w)) = self w
   \<and> self (snd (update_dataset (failing_server err) lyr sublayer w)) = self w
   \<and> (props (self w) = JObj kvs \<and> workspaceID (self w) = JStr wsid \<longrightarrow>
        (\<exists>url d. sent (snd (save (failing_server err) w)) = sent w @ [Post url d])
      \<and> props (self (snd (save (failing_server err) w)))
          = JObj (AList.update ''url'' (JStr (workspaceURL (self w)))
                 (AList.update ''name'' (JStr (workbookID (self w)))
                 (AList.update ''owner'' (JStr (username (gis_conn (self w))))
                 (AList.update ''id'' (JStr wsid) kvs)))))
   \<and> sends_only (\<lambda>r. False) (add_map dataset)
   \<and> sends_only (\<lambda>r. False) (aggregate rnd2 in_dataset gf gft st sf sft out_name)
   \<and> sends_only (\<lambda>r. False) (add_chart rnd3 chart_type in_dataset gf gft st sf sft)"
proof -
  have sv: "props (self w) = JObj kvs \<and> workspaceID (self w) = JStr wsid \<longrightarrow>
        (\<exists>url d. sent (snd (save (failing_server err) w)) = sent w @ [Post url d])
      \<and> props (self (snd (save (failing_server err) w)))
          = JObj (AList.update ''url'' (JStr (workspaceURL (self w)))
                 (AList.update ''name'' (JStr (workbookID (self w)))
                 (AList.update ''owner'' (JStr (username (gis_conn (self w))))
                 (AList.update ''id'' (JStr wsid) kvs))))"
  proof
    assume a: "props (self w) = JObj kvs \<and> workspaceID (self w) = JStr wsid"
    then have p: "props (self w) = JObj kvs" and i: "workspaceID (self w) = JStr wsid" by simp_all
    from save_run [OF p i, of "failing_server err"] obtain r w1 where
      r: "save (failing_server err) w = (r, w1)"
      and w1: "w1 = w\<lparr>sent := sent w @
        [Post (lower (gis_url (gis_conn (self w))) @ ''/sharing/rest/content/users/'' @
               username (gis_conn (self w)) @ ''/items/'' @ wsid @ ''/update'')
           [(''f'', AStr ''json''), (''title'', AStr (title (self w))),
            (''text'', ADumps (JObj (AList.update ''url'' (JStr (workspaceURL (self w)))
             (AList.update ''name'' (JStr (workbookID (self w)))
             (AList.update ''owner'' (JStr (username (gis_conn (self w))))
             (AList.update ''id'' (JStr wsid) kvs))))))]],
       self := (self w)\<lparr>props := JObj (AList.update ''url'' (JStr (workspaceURL (self w)))
             (AList.update ''name'' (JStr (workbookID (self w)))
             (AList.update ''owner'' (JStr (username (gis_conn (self w))))
             (AList.update ''id'' (JStr wsid) kvs))))\<rparr>\<rparr>"
      by blast
    from r w1 show "(\<exists>url d. sent (snd (save (failing_server err) w)) = sent w @ [Post url d])
      \<and> props (self (snd (save (failing_server err) w)))
          = JObj (AList.update ''url'' (JStr (workspaceURL (self w)))
                 (AList.update ''name'' (JStr (workbookID (self w)))
                 (AList.update ''owner'' (JStr (username (gis_conn (self w))))
                 (AList.update ''id'' (JStr wsid) kvs))))"
      by simp
  qed
  show ?thesis
    using sv new_sent [of srv rnd g ttl s] open_sent [of srv existing_workbook s]
      add_feature_layer_sent [of srv rnd1 lyr sublayer w]
      update_dataset_sent [of w items lyr x rest name url srv sublayer]
      add_feature_layer_failing [of err rnd1 lyr sublayer w]
      update_dataset_failing_props [of err lyr sublayer w]
      sends_only_add_map [of "\<lambda>r. False" dataset]
      sends_only_aggregate [of "\<lambda>r. False" rnd2 in_dataset gf gft st sf sft out_name]
      sends_only_add_chart [of "\<lambda>r. False" rnd3 chart_type in_dataset gf gft st sf sft]
    by blast
qed

text \<open>
  Claim C2 as stated fails: aggregate adds a dataset to props and sends no request.
\<close>

theorem edits_without_server_counterexample:
  "fst (aggregate 17 ''Roads_0000abc'' ''kind'' ''esriFieldTypeString'' ''count'' ''LEN''
          ''esriFieldTypeDouble'' None (on demo_workbook)) = Inr ''Roads_0000011''
   \<and> sent (snd (aggregate 17 ''Roads_0000abc'' ''kind'' ''esriFieldTypeString'' ''count'' ''LEN''
          ''esriFieldTypeDouble'' None (on demo_workbook))) = []
   \<and> get_path (props (self (on demo_workbook)))
        [KStr ''workspace'', KStr ''datasets'', KStr ''Roads_0000011'', KStr ''name'']
      = Inl KeyError
   \<and> get_path (props (self (snd (aggregate 17 ''Roads_0000abc'' ''kind'' ''esriFieldTypeString''
          ''count'' ''LEN'' ''esriFieldTypeDouble'' None (on demo_workbook)))))
        [KStr ''workspace'', KStr ''datasets'', KStr ''Roads_0000011'', KStr ''name'']
      = Inr (JStr ''Roads_0000011'')"
  by code_simp

theorem server_calls_and_edits_witness:
  "get_path (props (self (on demo_workbook))) [KStr ''pages'', KIdx 0, KStr ''model'', KStr ''items'']
     = Inr (JList [JObj
             [(''operation'', JStr ''add-data''),
              (''params'', JObj [(''data'', JObj
                 [(''type'', JStr ''feature-layer''), (''url'', JStr ''https://fs.example.org/roads/0'')])]),
              (''outDataset'', JStr ''Roads_0000abc'')]])
   \<and> props (self (on demo_workbook)) = JObj demo_items
   \<and> workspaceID (self (on demo_workbook)) = JStr ''item1''
   \<and> sent (snd (update_dataset demo_server demo_layer 0 (on demo_workbook))) = sent (on demo_workbook) @
          [Post (workspaceURL (self (on demo_workbook)) @ ''/execute'')
                (add_data_post ''https://fs.example.org/roads/0'' ''Roads_0000abc'')]
   \<and> self (snd (update_dataset (failing_server HTTPError) demo_layer 0 (on demo_workbook)))
       = self (on demo_workbook)
   \<and> props (self (snd (save (failing_server HTTPError) (on demo_workbook))))
          = JObj (AList.update ''url'' (JStr (workspaceURL (self (on demo_workbook))))
                 (AList.update ''name'' (JStr (workbookID (self (on demo_workbook))))
                 (AList.update ''owner'' (JStr (username (gis_conn (self (on demo_workbook)))))
                 (AList.update ''id'' (JStr ''item1'') demo_items))))"
proof -
  have p: "props (self (on demo_workbook)) = JObj demo_items"
    by (simp add: on_def demo_workbook_def init_def demo_props_def)
  have i: "workspaceID (self (on demo_workbook)) = JStr ''item1''"
    by (simp add: on_def demo_workbook_def init_def)
  have o: "getitem (JObj
             [(''operation'', JStr ''add-data''),
              (''params'', JObj [(''data'', JObj
                 [(''type'', JStr ''feature-layer''), (''url'', JStr ''https://fs.example.org/roads/0'')])]),
              (''outDataset'', JStr ''Roads_0000abc'')]) (KStr ''outDataset'') = Inr (JStr ''Roads_0000abc'')"
    by simp
  have u: "get_path (JObj
             [(''operation'', JStr ''add-data''),
              (''params'', JObj [(''data'', JObj
                 [(''type'', JStr ''feature-layer''), (''url'', JStr ''https://fs.example.org/roads/0'')])]),
              (''outDataset'', JStr ''Roads_0000abc'')]) [KStr ''params'', KStr ''data'', KStr ''url'']
           = Inr (JStr ''https://fs.example.org/roads/0'')"
    by simp
  from server_calls_and_edits [where srv = demo_server and lyr = demo_layer and sublayer = 0
      and w = "on demo_workbook" and kvs = demo_items and wsid = "''item1''"
      and items = "[JObj
             [(''operation'', JStr ''add-data''),
              (''params'', JObj [(''data'', JObj
                 [(''type'', JStr ''feature-layer''), (''url'', JStr ''https://fs.example.org/roads/0'')])]),
              (''outDataset'', JStr ''Roads_0000abc'')]]"
      and x = "JObj
             [(''operation'', JStr ''add-data''),
              (''params'', JObj [(''data'', JObj
                 [(''type'', JStr ''feature-layer''), (''url'', JStr ''https://fs.example.org/roads/0'')])]),
              (''outDataset'', JStr ''Roads_0000abc'')]"
      and rest = "[]" and name = "''Roads_0000abc''" and url = "''https://fs.example.org/roads/0''"
      and err = HTTPError]
    p i demo_model_items demo_add_op o u
  show ?thesis by blast
qed

subsection \<open>The cards after every run of add_map and add_chart\<close>

lemma leaves_path_return: "leaves_path ks (py_return v)"
  by (simp add: leaves_path_def py_return_def)

lemma leaves_path_raise: "leaves_path ks (py_raise e)"
  by (simp add: leaves_path_def py_raise_def)

lemma leaves_path_lift: "leaves_path ks (lift r)"
  by (simp add: leaves_path_def lift_def)

lemma leaves_path_read: "leaves_path ks (read_props ks')"
  by (simp add: leaves_path_def read_props_def)

lemma leaves_path_bind:
  assumes "leaves_path ks m" and "\<And>a. leaves_path ks (f a)"
  shows "leaves_path ks (py_bind m f)"
  unfolding leaves_path_def
proof
  fix w
  show "get_path (props (self (snd (py_bind m f w)))) ks = get_path (props (self w)) ks"
  proof (cases "m w")
    case (Pair r w1)
    with assms(1) have p: "get_path (props (self w1)) ks = get_path (props (self w)) ks"
      unfolding leaves_path_def by (metis snd_conv)
    show ?thesis
    proof (cases r)
      case (Inl e)
      with Pair p show ?thesis by (simp add: py_bind_def)
    next
      case (Inr a)
      from assms(2) [of a] have "get_path (props (self (snd (f a w1)))) ks = get_path (props (self w1)) ks"
        unfolding leaves_path_def by blast
      with Pair Inr p show ?thesis by (simp add: py_bind_def)
    qed
  qed
qed

lemma leaves_path_mutate_top:
  assumes "a \<noteq> b"
  shows "leaves_path (KStr b # ks') (mutate_props (KStr a # ks) f)"
  unfolding leaves_path_def
proof
  fix w
  show "get_path (props (self (snd (mutate_props (KStr a # ks) f w)))) (KStr b # ks')
      = get_path (props (self w)) (KStr b # ks')"
  proof (cases "modify_at (KStr a # ks) f (props (self w))")
    case (Inl e)
    then show ?thesis by (simp add: mutate_props_def)
  next
    case (Inr p)
    from frame_top [OF Inr assms, of ks'] Inr show ?thesis by (simp add: mutate_props_def)
  qed
qed

lemma leaves_path_mutate_page:
  assumes "a \<noteq> b"
  shows "leaves_path (k1 # k2 # KStr b # ks') (mutate_props (k1 # k2 # KStr a # ks) f)"
  unfolding leaves_path_def
proof
  fix w
  show "get_path (props (self (snd (mutate_props (k1 # k2 # KStr a # ks) f w)))) (k1 # k2 # KStr b # ks')
      = get_path (props (self w)) (k1 # k2 # KStr b # ks')"
  proof (cases "modify_at (k1 # k2 # KStr a # ks) f (props (self w))")
    case (Inl e)
    then show ?thesis by (simp add: mutate_props_def)
  next
    case (Inr p)
    from frame_page [OF Inr assms, of ks'] Inr show ?thesis by (simp add: mutate_props_def)
  qed
qed

lemma aggregate_leaves_cards:
  "leaves_path [KStr ''pages'', KIdx 0, KStr ''cards'']
     (aggregate rnd in_dataset gf gft st sf sft out_name)"
  unfolding aggregate_def Let_def
  by (intro leaves_path_bind leaves_path_return leaves_path_read
            leaves_path_mutate_top leaves_path_mutate_page) simp_all

lemma leaves_pathD:
  "leaves_path ks m \<Longrightarrow> m w = (r, w') \<Longrightarrow>
   get_path (props (self w')) ks = get_path (props (self w)) ks"
  unfolding leaves_path_def by (metis snd_conv)

lemma add_map_runs:
  assumes "add_map dataset w = (r, w')"
  shows "(isl r \<and> self w' = self w)
    \<or> (\<exists>ld cards n ext p1.
          get_path (props (self w)) [KStr ''workspace'', KStr ''datasets'', KStr dataset] = Inr ld
        \<and> get_path (props (self w)) [KStr ''pages'', KIdx 0, KStr ''cards''] = Inr cards
        \<and> py_len cards = Inr n
        \<and> modify_at [KStr ''pages'', KIdx 0, KStr ''cards''] (append (map_card n dataset ext))
             (props (self w)) = Inr p1
        \<and> (props (self w') = p1
           \<or> (\<exists>p2. modify_at [KStr ''pages'', KIdx 0, KStr ''layout''] (append (layout_entry n)) p1
                      = Inr p2 \<and> r = Inr () \<and> props (self w') = p2)))"
  using assms unfolding add_map_def
  by (auto simp: py_bind_def read_props_def lift_def mutate_props_def print_line_def py_raise_def
           simp del: modify_at.simps get_path.simps getitem.simps
           split: sum.splits if_splits)

lemma add_chart_runs:
  assumes "add_chart rnd chart_type in_dataset gf gft st sf sft w = (r, w')"
  shows "(isl r \<and> self w' = self w)
    \<or> (\<exists>cards n.
          get_path (props (self w)) [KStr ''pages'', KIdx 0, KStr ''cards''] = Inr cards
        \<and> py_len cards = Inr n
        \<and> ((\<exists>e. isl r \<and> aggregate rnd in_dataset gf gft st sf sft
                  (Some (title_case chart_type @ '' Chart '' @ str_of_nat (n + 1))) w = (Inl e, w'))
           \<or> (\<exists>out w1. aggregate rnd in_dataset gf gft st sf sft
                  (Some (title_case chart_type @ '' Chart '' @ str_of_nat (n + 1))) w = (Inr out, w1)
                \<and> ((isl r \<and> self w' = self w1)
                   \<or> (\<exists>p2. modify_at [KStr ''pages'', KIdx 0, KStr ''cards'']
                              (append (chart_card n out chart_type)) (props (self w1)) = Inr p2
                        \<and> (props (self w') = p2
                           \<or> (\<exists>p3. modify_at [KStr ''pages'', KIdx 0, KStr ''layout'']
                                      (append (layout_entry n)) p2 = Inr p3
                                \<and> r = Inr () \<and> props (self w') = p3)))))))"
  using assms unfolding add_chart_def Let_def
  by (auto simp: py_bind_def read_props_def lift_def mutate_props_def
           simp del: modify_at.simps get_path.simps getitem.simps
           split: sum.splits prod.splits)

lemma layout_keeps:
  assumes "props (self w') = p1
     \<or> (\<exists>p2. modify_at [KStr ''pages'', KIdx 0, KStr ''layout''] f p1 = Inr p2 \<and> c
              \<and> props (self w') = p2)"
  shows "get_path (props (self w')) [KStr ''pages'', KIdx 0, KStr ''cards'']
           = get_path p1 [KStr ''pages'', KIdx 0, KStr ''cards'']
       \<and> get_path (props (self w')) (KStr ''workspace'' # ks)
           = get_path p1 (KStr ''workspace'' # ks)"
  using assms
proof
  assume "props (self w') = p1"
  then show ?thesis by simp
next
  assume "\<exists>p2. modify_at [KStr ''pages'', KIdx 0, KStr ''layout''] f p1 = Inr p2 \<and> c
              \<and> props (self w') = p2"
  then obtain p2 where m: "modify_at [KStr ''pages'', KIdx 0, KStr ''layout''] f p1 = Inr p2"
    and p: "props (self w') = p2"
    by blast
  from frame_page [OF m, of "''cards''" "[]"] frame_top [OF m, of "''workspace''" ks] p
  show ?thesis by simp
qed

lemma add_map_any_run:
  assumes "add_map dataset w = (r, w')"
  shows "(isl r \<and> get_path (props (self w')) [KStr ''pages'', KIdx 0, KStr ''cards'']
                  = get_path (props (self w)) [KStr ''pages'', KIdx 0, KStr ''cards''])
    \<or> (\<exists>cs ds ext.
          get_path (props (self w)) [KStr ''pages'', KIdx 0, KStr ''cards''] = Inr (JList cs)
        \<and> get_path (props (self w')) [KStr ''pages'', KIdx 0, KStr ''cards'']
             = Inr (JList (cs @ [map_card (length cs) dataset ext]))
        \<and> get_path (props (self w)) [KStr ''workspace'', KStr ''datasets''] = Inr (JObj ds)
        \<and> get_path (props (self w')) [KStr ''workspace'', KStr ''datasets''] = Inr (JObj ds)
        \<and> dataset \<in> fst ` set ds)"
  using add_map_runs [OF assms]
proof
  assume "isl r \<and> self w' = self w"
  then show ?thesis by simp
next
  assume "\<exists>ld cards n ext p1.
          get_path (props (self w)) [KStr ''workspace'', KStr ''datasets'', KStr dataset] = Inr ld
        \<and> get_path (props (self w)) [KStr ''pages'', KIdx 0, KStr ''cards''] = Inr cards
        \<and> py_len cards = Inr n
        \<and> modify_at [KStr ''pages'', KIdx 0, KStr ''cards''] (append (map_card n dataset ext))
             (props (self w)) = Inr p1
        \<and> (props (self w') = p1
           \<or> (\<exists>p2. modify_at [KStr ''pages'', KIdx 0, KStr ''layout''] (append (layout_entry n)) p1
                      = Inr p2 \<and> r = Inr () \<and> props (self w') = p2))"
  then obtain ld cards n ext p1 where
    ld: "get_path (props (self w)) [KStr ''workspace'', KStr ''datasets'', KStr dataset] = Inr ld"
    and c: "get_path (props (self w)) [KStr ''pages'', KIdx 0, KStr ''cards''] = Inr cards"
           "py_len cards = Inr n"
    and m1: "modify_at [KStr ''pages'', KIdx 0, KStr ''cards''] (append (map_card n dataset ext))
             (props (self w)) = Inr p1"
    and fin: "props (self w') = p1
           \<or> (\<exists>p2. modify_at [KStr ''pages'', KIdx 0, KStr ''layout''] (append (layout_entry n)) p1
                      = Inr p2 \<and> r = Inr () \<and> props (self w') = p2)"
    by blast
  from append_at_path [OF m1] c obtain cs where
    cs: "cards = JList cs" "get_path p1 [KStr ''pages'', KIdx 0, KStr ''cards'']
         = Inr (JList (cs @ [map_card n dataset ext]))"
    by auto
  from cs(1) c(2) have n: "n = length cs" by simp
  from layout_keeps [OF fin, of "[KStr ''datasets'']"]
  have k: "get_path (props (self w')) [KStr ''pages'', KIdx 0, KStr ''cards'']
           = get_path p1 [KStr ''pages'', KIdx 0, KStr ''cards'']"
     "get_path (props (self w')) [KStr ''workspace'', KStr ''datasets'']
           = get_path p1 [KStr ''workspace'', KStr ''datasets'']"
    by blast+
  from ld have "get_path (props (self w)) ([KStr ''workspace'', KStr ''datasets''] @ [KStr dataset]) = Inr ld"
    by (simp only: append_Cons append_Nil)
  from key_of_getitem [OF this] obtain ds where
    ds: "get_path (props (self w)) [KStr ''workspace'', KStr ''datasets''] = Inr (JObj ds)"
        "dataset \<in> fst ` set ds"
    by blast
  have "get_path p1 [KStr ''workspace'', KStr ''datasets'']
      = get_path (props (self w)) [KStr ''workspace'', KStr ''datasets'']"
    using frame_top [OF m1, of "''workspace''" "[KStr ''datasets'']"] by simp
  with k ds(1) have d': "get_path (props (self w')) [KStr ''workspace'', KStr ''datasets''] = Inr (JObj ds)"
    by simp
  from k(1) cs(2) n have c': "get_path (props (self w')) [KStr ''pages'', KIdx 0, KStr ''cards'']
         = Inr (JList (cs @ [map_card (length cs) dataset ext]))"
    by simp
  from c(1) cs(1) c' ds d' show ?thesis by blast
qed

lemma shown_name_title: "aggregate_shown_name (Some (a @ '' Chart '' @ b)) out = a @ '' Chart '' @ b"
  by (simp add: aggregate_shown_name_def)

lemma add_chart_any_run:
  assumes "add_chart rnd chart_type in_dataset gf gft st sf sft w = (r, w')"
  shows "(isl r \<and> get_path (props (self w')) [KStr ''pages'', KIdx 0, KStr ''cards'']
                  = get_path (props (self w)) [KStr ''pages'', KIdx 0, KStr ''cards''])
    \<or> (\<exists>cs ds out w1 in_data_id.
          get_path (props (self w)) [KStr ''pages'', KIdx 0, KStr ''cards''] = Inr (JList cs)
        \<and> aggregate rnd in_dataset gf gft st sf sft
             (Some (title_case chart_type @ '' Chart '' @ str_of_nat (length cs + 1))) w
             = (Inr out, w1)
        \<and> get_path (props (self w')) [KStr ''pages'', KIdx 0, KStr ''cards'']
             = Inr (JList (cs @ [chart_card (length cs) out chart_type]))
        \<and> get_path (props (self w')) [KStr ''workspace'', KStr ''datasets''] = Inr (JObj ds)
        \<and> out \<in> fst ` set ds
        \<and> get_path (props (self w)) [KStr ''workspace'', KStr ''datasets'', KStr in_dataset,
                                       KStr ''data''] = Inr in_data_id
        \<and> get_path (props (self w')) [KStr ''workspace'', KStr ''datasets'', KStr out]
             = Inr (aggregate_entry in_data_id gf gft st sf (lower sf @ ''_'' @ st)
                      (aggregate_out_type st sft) out
                      (title_case chart_type @ '' Chart '' @ str_of_nat (length cs + 1))
                      (slice_to in_dataset (str_find in_dataset ''_''))))"
proof -
  let ?cards = "[KStr ''pages'', KIdx 0, KStr ''cards'']"
  let ?same = "isl r \<and> get_path (props (self w')) ?cards = get_path (props (self w)) ?cards"
  from add_chart_runs [OF assms] consider
    (same) "isl r" "self w' = self w"
  | (aggfail) n e where "isl r"
      "aggregate rnd in_dataset gf gft st sf sft
         (Some (title_case chart_type @ '' Chart '' @ str_of_nat (n + 1))) w = (Inl e, w')"
  | (cardfail) n out w1 where "isl r" "self w' = self w1"
      "aggregate rnd in_dataset gf gft st sf sft
         (Some (title_case chart_type @ '' Chart '' @ str_of_nat (n + 1))) w = (Inr out, w1)"
  | (added) cards n out w1 p2 where
      "get_path (props (self w)) ?cards = Inr cards" "py_len cards = Inr n"
      "aggregate rnd in_dataset gf gft st sf sft
         (Some (title_case chart_type @ '' Chart '' @ str_of_nat (n + 1))) w = (Inr out, w1)"
      "modify_at ?cards (append (chart_card n out chart_type)) (props (self w1)) = Inr p2"
      "props (self w') = p2
       \<or> (\<exists>p3. modify_at [KStr ''pages'', KIdx 0, KStr ''layout''] (append (layout_entry n)) p2
                  = Inr p3 \<and> r = Inr () \<and> props (self w') = p3)"
    by blast
  then show ?thesis
  proof cases
    case same
    then show ?thesis by simp
  next
    case aggfail
    from leaves_pathD [OF aggregate_leaves_cards aggfail(2)] aggfail(1) show ?thesis by simp
  next
    case cardfail
    from leaves_pathD [OF aggregate_leaves_cards cardfail(3)] cardfail(1,2) show ?thesis by simp
  next
    case added
    note a = added(3) and m1 = added(4) and fin = added(5)
    have c1: "get_path (props (self w1)) ?cards = Inr cards"
      using leaves_pathD [OF aggregate_leaves_cards a] added(1) by simp
    from append_at_path [OF m1] c1 obtain cs where
      cs: "cards = JList cs" "get_path p2 ?cards = Inr (JList (cs @ [chart_card n out chart_type]))"
      by auto
    from cs(1) added(2) have n: "n = length cs" by simp
    from aggregate_Inr [OF a] obtain in_data_id pa where
      a1: "modify_at [KStr ''pages'', KIdx 0, KStr ''model'', KStr ''items'']
           (append (aggregate_item in_dataset gf st sf (lower sf @ ''_'' @ st) out))
           (props (self w)) = Inr pa"
      and g: "get_path pa [KStr ''workspace'', KStr ''datasets'', KStr in_dataset, KStr ''data'']
           = Inr in_data_id"
      and a2: "modify_at [KStr ''workspace'', KStr ''datasets'']
           (setitem out (aggregate_entry in_data_id gf gft st sf (lower sf @ ''_'' @ st)
                           (aggregate_out_type st sft) out
                           (aggregate_shown_name
                              (Some (title_case chart_type @ '' Chart '' @ str_of_nat (n + 1))) out)
                           (slice_to in_dataset (str_find in_dataset ''_'')))) pa
           = Inr (props (self w1))"
      by blast
    let ?entry = "aggregate_entry in_data_id gf gft st sf (lower sf @ ''_'' @ st)
                      (aggregate_out_type st sft) out
                      (title_case chart_type @ '' Chart '' @ str_of_nat (n + 1))
                      (slice_to in_dataset (str_find in_dataset ''_''))"
    from a2 have a2': "modify_at [KStr ''workspace'', KStr ''datasets''] (setitem out ?entry) pa
           = Inr (props (self w1))"
      by (simp only: shown_name_title)
    have g0: "get_path (props (self w)) [KStr ''workspace'', KStr ''datasets'', KStr in_dataset,
                KStr ''data''] = Inr in_data_id"
      using frame_top [OF a1, of "''workspace''"] g by simp
    from setitem_at_path [OF a2'] obtain kvs where
      k: "get_path (props (self w1)) [KStr ''workspace'', KStr ''datasets'']
            = Inr (JObj (AList.update out ?entry kvs))"
         "get_path (props (self w1)) ([KStr ''workspace'', KStr ''datasets''] @ [KStr out])
            = Inr ?entry"
      by blast
    have mem: "out \<in> fst ` set (AList.update out ?entry kvs)"
      by (simp add: keys_update)
    have f1: "get_path p2 (KStr ''workspace'' # ks) = get_path (props (self w1)) (KStr ''workspace'' # ks)" for ks
      using frame_top [OF m1, of "''workspace''" ks] by simp
    from layout_keeps [OF fin]
    have l: "get_path (props (self w')) ?cards = get_path p2 ?cards"
      "get_path (props (self w')) (KStr ''workspace'' # ks) = get_path p2 (KStr ''workspace'' # ks)" for ks
      by blast+
    have d': "get_path (props (self w')) [KStr ''workspace'', KStr ''datasets'']
            = Inr (JObj (AList.update out ?entry kvs))"
      using l(2) [of "[KStr ''datasets'']"] f1 [of "[KStr ''datasets'']"] k(1) by simp
    have e': "get_path (props (self w')) [KStr ''workspace'', KStr ''datasets'', KStr out] = Inr ?entry"
      using l(2) [of "[KStr ''datasets'', KStr out]"] f1 [of "[KStr ''datasets'', KStr out]"] k(2)
      by (simp only: append_Cons append_Nil)
    have c': "get_path (props (self w')) ?cards = Inr (JList (cs @ [chart_card n out chart_type]))"
      using l(1) cs(2) by simp
    from added(1) cs(1) a c' d' mem g0 e' show ?thesis unfolding n by blast
  qed
qed

text \<open>
  Claim C7. Every run of add_map or add_chart, whether it returns or raises, either fails
  with \<^verbatim>\<open>props['pages'][0]['cards']\<close> left as it was, or appends exactly one card to that
  list; the second case includes the run that raises after the append (a page without
  \<^verbatim>\<open>layout\<close>). The \<^verbatim>\<open>content.layers\<close> of the appended card is a one-element list. For add_map
  its \<^verbatim>\<open>datasetId\<close> is the given dataset, a key of \<^verbatim>\<open>props['workspace']['datasets']\<close>,
  which the call leaves unchanged. For add_chart its \<^verbatim>\<open>datasetId\<close> is the very name that the
  chart's own call of aggregate returned, and under that key the datasets hold the entry
  which that aggregation builds from the input dataset's \<^verbatim>\<open>data\<close>.
\<close>

theorem card_references_dataset:
  "(add_map dataset w = (r, w') \<longrightarrow>
      (isl r \<and> get_path (props (self w')) [KStr ''pages'', KIdx 0, KStr ''cards'']
                 = get_path (props (self w)) [KStr ''pages'', KIdx 0, KStr ''cards''])
      \<or> (\<exists>cs ds card.
            get_path (props (self w)) [KStr ''pages'', KIdx 0, KStr ''cards''] = Inr (JList cs)
          \<and> get_path (props (self w')) [KStr ''pages'', KIdx 0, KStr ''cards'']
               = Inr (JList (cs @ [card]))
          \<and> get_path card [KStr ''content'', KStr ''layers'']
               = Inr (JList [JObj [(''datasetId'', JStr dataset)]])
          \<and> get_path (props (self w)) [KStr ''workspace'', KStr ''datasets''] = Inr (JObj ds)
          \<and> get_path (props (self w')) [KStr ''workspace'', KStr ''datasets''] = Inr (JObj ds)
          \<and> dataset \<in> fst ` set ds))
   \<and> (add_chart rnd chart_type in_dataset gf gft st sf sft v = (r', v') \<longrightarrow>
      (isl r' \<and> get_path (props (self v')) [KStr ''pages'', KIdx 0, KStr ''cards'']
                  = get_path (props (self v)) [KStr ''pages'', KIdx 0, KStr ''cards''])
      \<or> (\<exists>cs ds card out v1 in_data_id.
            get_path (props (self v)) [KStr ''pages'', KIdx 0, KStr ''cards''] = Inr (JList cs)
          \<and> aggregate rnd in_dataset gf gft st sf sft
               (Some (title_case chart_type @ '' Chart '' @ str_of_nat (length cs + 1))) v
               = (Inr out, v1)
          \<and> get_path (props (self v')) [KStr ''pages'', KIdx 0, KStr ''cards'']
               = Inr (JList (cs @ [card]))
          \<and> get_path card [KStr ''content'', KStr ''layers'']
               = Inr (JList [JObj [(''datasetId'', JStr out),
                                   (''chartLines'', JObj [(''mean'', JBool True)]),
                                   (''colors'', JObj [])]])
          \<and> get_path (props (self v')) [KStr ''workspace'', KStr ''datasets''] = Inr (JObj ds)
          \<and> out \<in> fst ` set ds
          \<and> get_path (props (self v)) [KStr ''workspace'', KStr ''datasets'', KStr in_dataset,
                                         KStr ''data''] = Inr in_data_id
          \<and> get_path (props (self v')) [KStr ''workspace'', KStr ''datasets'', KStr out]
               = Inr (aggregate_entry in_data_id gf gft st sf (lower sf @ ''_'' @ st)
                        (aggregate_out_type st sft) out
                        (title_case chart_type @ '' Chart '' @ str_of_nat (length cs + 1))
                        (slice_to in_dataset (str_find in_dataset ''_'')))))"
proof (intro conjI impI)
  assume "add_map dataset w = (r, w')"
  from add_map_any_run [OF this]
  have "(isl r \<and> get_path (props (self w')) [KStr ''pages'', KIdx 0, KStr ''cards'']
                  = get_path (props (self w)) [KStr ''pages'', KIdx 0, KStr ''cards''])
    \<or> (\<exists>cs ds ext.
          get_path (props (self w)) [KStr ''pages'', KIdx 0, KStr ''cards''] = Inr (JList cs)
        \<and> get_path (props (self w')) [KStr ''pages'', KIdx 0, KStr ''cards'']
             = Inr (JList (cs @ [map_card (length cs) dataset ext]))
        \<and> get_path (props (self w)) [KStr ''workspace'', KStr ''datasets''] = Inr (JObj ds)
        \<and> get_path (props (self w')) [KStr ''workspace'', KStr ''datasets''] = Inr (JObj ds)
        \<and> dataset \<in> fst ` set ds)" .
  moreover have "get_path (map_card n dataset ext) [KStr ''content'', KStr ''layers'']
             = Inr (JList [JObj [(''datasetId'', JStr dataset)]])" for n ext
    by (simp add: map_card_def)
  ultimately show "(isl r \<and> get_path (props (self w')) [KStr ''pages'', KIdx 0, KStr ''cards'']
                 = get_path (props (self w)) [KStr ''pages'', KIdx 0, KStr ''cards''])
      \<or> (\<exists>cs ds card.
            get_path (props (self w)) [KStr ''pages'', KIdx 0, KStr ''cards''] = Inr (JList cs)
          \<and> get_path (props (self w')) [KStr ''pages'', KIdx 0, KStr ''cards'']
               = Inr (JList (cs @ [card]))
          \<and> get_path card [KStr ''content'', KStr ''layers'']
               = Inr (JList [JObj [(''datasetId'', JStr dataset)]])
          \<and> get_path (props (self w)) [KStr ''workspace'', KStr ''datasets''] = Inr (JObj ds)
          \<and> get_path (props (self w')) [KStr ''workspace'', KStr ''datasets''] = Inr (JObj ds)
          \<and> dataset \<in> fst ` set ds)"
    by blast
next
  assume "add_chart rnd chart_type in_dataset gf gft st sf sft v = (r', v')"
  from add_chart_any_run [OF this]
  have "(isl r' \<and> get_path (props (self v')) [KStr ''pages'', KIdx 0, KStr ''cards'']
                  = get_path (props (self v)) [KStr ''pages'', KIdx 0, KStr ''cards''])
    \<or> (\<exists>cs ds out w1 in_data_id.
          get_path (props (self v)) [KStr ''pages'', KIdx 0, KStr ''cards''] = Inr (JList cs)
        \<and> aggregate rnd in_dataset gf gft st sf sft
             (Some (title_case chart_type @ '' Chart '' @ str_of_nat (length cs + 1))) v
             = (Inr out, w1)
        \<and> get_path (props (self v')) [KStr ''pages'', KIdx 0, KStr ''cards'']
             = Inr (JList (cs @ [chart_card (length cs) out chart_type]))
        \<and> get_path (props (self v')) [KStr ''workspace'', KStr ''datasets''] = Inr (JObj ds)
        \<and> out \<in> fst ` set ds
        \<and> get_path (props (self v)) [KStr ''workspace'', KStr ''datasets'', KStr in_dataset,
                                       KStr ''data''] = Inr in_data_id
        \<and> get_path (props (self v')) [KStr ''workspace'', KStr ''datasets'', KStr out]
             = Inr (aggregate_entry in_data_id gf gft st sf (lower sf @ ''_'' @ st)
                      (aggregate_out_type st sft) out
                      (title_case chart_type @ '' Chart '' @ str_of_nat (length cs + 1))
                      (slice_to in_dataset (str_find in_dataset ''_''))))" .
  moreover have "get_path (chart_card n out chart_type) [KStr ''content'', KStr ''layers'']
             = Inr (JList [JObj [(''datasetId'', JStr out),
                                 (''chartLines'', JObj [(''mean'', JBool True)]),
                                 (''colors'', JObj [])]])" for n out
    by (simp add: chart_card_def)
  ultimately show "(isl r' \<and> get_path (props (self v')) [KStr ''pages'', KIdx 0, KStr ''cards'']
                  = get_path (props (self v)) [KStr ''pages'', KIdx 0, KStr ''cards''])
      \<or> (\<exists>cs ds card out v1 in_data_id.
            get_path (props (self v)) [KStr ''pages'', KIdx 0, KStr ''cards''] = Inr (JList cs)
          \<and> aggregate rnd in_dataset gf gft st sf sft
               (Some (title_case chart_type @ '' Chart '' @ str_of_nat (length cs + 1))) v
               = (Inr out, v1)
          \<and> get_path (props (self v')) [KStr ''pages'', KIdx 0, KStr ''cards'']
               = Inr (JList (cs @ [card]))
          \<and> get_path card [KStr ''content'', KStr ''layers'']
               = Inr (JList [JObj [(''datasetId'', JStr out),
                                   (''chartLines'', JObj [(''mean'', JBool True)]),
                                   (''colors'', JObj [])]])
          \<and> get_path (props (self v')) [KStr ''workspace'', KStr ''datasets''] = Inr (JObj ds)
          \<and> out \<in> fst ` set ds
          \<and> get_path (props (self v)) [KStr ''workspace'', KStr ''datasets'', KStr in_dataset,
                                         KStr ''data''] = Inr in_data_id
          \<and> get_path (props (self v')) [KStr ''workspace'', KStr ''datasets'', KStr out]
               = Inr (aggregate_entry in_data_id gf gft st sf (lower sf @ ''_'' @ st)
                        (aggregate_out_type st sft) out
                        (title_case chart_type @ '' Chart '' @ str_of_nat (length cs + 1))
                        (slice_to in_dataset (str_find in_dataset ''_''))))"
    by blast
qed

theorem card_references_dataset_witness:
  "add_map ''Roads_0000abc'' (on demo_workbook)
     = (Inr (), snd (add_map ''Roads_0000abc'' (on demo_workbook)))
   \<and> add_chart 17 ''bar'' ''Roads_0000abc'' ''kind'' ''esriFieldTypeString'' ''count'' ''LEN''
         ''esriFieldTypeDouble'' (on demo_workbook)
     = (Inr (), snd (add_chart 17 ''bar'' ''Roads_0000abc'' ''kind'' ''esriFieldTypeString''
         ''count'' ''LEN'' ''esriFieldTypeDouble'' (on demo_workbook)))
   \<and> add_map ''Roads_0000abc'' (on sparse_workbook)
     = (Inl KeyError, snd (add_map ''Roads_0000abc'' (on sparse_workbook)))
   \<and> get_path (props (self (on sparse_workbook))) [KStr ''pages'', KIdx 0, KStr ''cards'']
     = Inr (JList [])
   \<and> (\<exists>cs card ds.
          get_path (props (self (snd (add_map ''Roads_0000abc'' (on demo_workbook)))))
            [KStr ''pages'', KIdx 0, KStr ''cards''] = Inr (JList (cs @ [card]))
        \<and> get_path card [KStr ''content'', KStr ''layers'']
             = Inr (JList [JObj [(''datasetId'', JStr ''Roads_0000abc'')]])
        \<and> get_path (props (self (snd (add_map ''Roads_0000abc'' (on demo_workbook)))))
            [KStr ''workspace'', KStr ''datasets''] = Inr (JObj ds)
        \<and> ''Roads_0000abc'' \<in> fst ` set ds)
   \<and> (\<exists>cs card ds.
          get_path (props (self (snd (add_map ''Roads_0000abc'' (on sparse_workbook)))))
            [KStr ''pages'', KIdx 0, KStr ''cards''] = Inr (JList (cs @ [card]))
        \<and> get_path card [KStr ''content'', KStr ''layers'']
             = Inr (JList [JObj [(''datasetId'', JStr ''Roads_0000abc'')]])
        \<and> get_path (props (self (snd (add_map ''Roads_0000abc'' (on sparse_workbook)))))
            [KStr ''workspace'', KStr ''datasets''] = Inr (JObj ds)
        \<and> ''Roads_0000abc'' \<in> fst ` set ds)
   \<and> (\<exists>cs card out ds v1 entry.
          aggregate 17 ''Roads_0000abc'' ''kind'' ''esriFieldTypeString'' ''count'' ''LEN''
            ''esriFieldTypeDouble''
            (Some (title_case ''bar'' @ '' Chart '' @ str_of_nat (length cs + 1))) (on demo_workbook)
            = (Inr out, v1)
        \<and> get_path (props (self (snd (add_chart 17 ''bar'' ''Roads_0000abc'' ''kind''
             ''esriFieldTypeString'' ''count'' ''LEN'' ''esriFieldTypeDouble'' (on demo_workbook)))))
            [KStr ''pages'', KIdx 0, KStr ''cards''] = Inr (JList (cs @ [card]))
        \<and> get_path card [KStr ''content'', KStr ''layers'']
             = Inr (JList [JObj [(''datasetId'', JStr out),
                                 (''chartLines'', JObj [(''mean'', JBool True)]),
                                 (''colors'', JObj [])]])
        \<and> get_path (props (self (snd (add_chart 17 ''bar'' ''Roads_0000abc'' ''kind''
             ''esriFieldTypeString'' ''count'' ''LEN'' ''esriFieldTypeDouble'' (on demo_workbook)))))
            [KStr ''workspace'', KStr ''datasets''] = Inr (JObj ds)
        \<and> out \<in> fst ` set ds
        \<and> get_path (props (self (snd (add_chart 17 ''bar'' ''Roads_0000abc'' ''kind''
             ''esriFieldTypeString'' ''count'' ''LEN'' ''esriFieldTypeDouble'' (on demo_workbook)))))
            [KStr ''workspace'', KStr ''datasets'', KStr out] = Inr entry)"
proof -
  have "fst (add_map ''Roads_0000abc'' (on demo_workbook)) = Inr ()"
    by code_simp
  then have a: "add_map ''Roads_0000abc'' (on demo_workbook)
     = (Inr (), snd (add_map ''Roads_0000abc'' (on demo_workbook)))"
    by (rule run_pair)
  have "fst (add_chart 17 ''bar'' ''Roads_0000abc'' ''kind'' ''esriFieldTypeString'' ''count'' ''LEN''
         ''esriFieldTypeDouble'' (on demo_workbook)) = Inr ()"
    by code_simp
  then have b: "add_chart 17 ''bar'' ''Roads_0000abc'' ''kind'' ''esriFieldTypeString'' ''count'' ''LEN''
         ''esriFieldTypeDouble'' (on demo_workbook)
     = (Inr (), snd (add_chart 17 ''bar'' ''Roads_0000abc'' ''kind'' ''esriFieldTypeString''
         ''count'' ''LEN'' ''esriFieldTypeDouble'' (on demo_workbook)))"
    by (rule run_pair)
  have "fst (add_map ''Roads_0000abc'' (on sparse_workbook)) = Inl KeyError"
    by code_simp
  then have c: "add_map ''Roads_0000abc'' (on sparse_workbook)
     = (Inl KeyError, snd (add_map ''Roads_0000abc'' (on sparse_workbook)))"
    by (rule run_pair)
  have before: "get_path (props (self (on sparse_workbook))) [KStr ''pages'', KIdx 0, KStr ''cards'']
     = Inr (JList [])"
    by (simp add: on_def sparse_workbook_def init_def sparse_items_def)
  have after: "get_path (props (self (snd (add_map ''Roads_0000abc'' (on sparse_workbook)))))
       [KStr ''pages'', KIdx 0, KStr ''cards''] \<noteq> Inr (JList [])"
    by code_simp
  have ok: "\<not> isl (Inr () :: unit res)" by simp
  note demo = card_references_dataset [of "''Roads_0000abc''" "on demo_workbook" "Inr ()"
      "snd (add_map ''Roads_0000abc'' (on demo_workbook))"
      17 "''bar''" "''Roads_0000abc''" "''kind''" "''esriFieldTypeString''" "''count''" "''LEN''"
      "''esriFieldTypeDouble''" "on demo_workbook" "Inr ()"
      "snd (add_chart 17 ''bar'' ''Roads_0000abc'' ''kind'' ''esriFieldTypeString''
         ''count'' ''LEN'' ''esriFieldTypeDouble'' (on demo_workbook))"]
  note sparse = card_references_dataset [of "''Roads_0000abc''" "on sparse_workbook" "Inl KeyError"
      "snd (add_map ''Roads_0000abc'' (on sparse_workbook))"
      17 "''bar''" "''Roads_0000abc''" "''kind''" "''esriFieldTypeString''" "''count''" "''LEN''"
      "''esriFieldTypeDouble''" "on demo_workbook" "Inr ()"
      "snd (add_chart 17 ''bar'' ''Roads_0000abc'' ''kind'' ''esriFieldTypeString''
         ''count'' ''LEN'' ''esriFieldTypeDouble'' (on demo_workbook))"]
  from demo a ok have m1: "\<exists>cs card ds.
          get_path (props (self (snd (add_map ''Roads_0000abc'' (on demo_workbook)))))
            [KStr ''pages'', KIdx 0, KStr ''cards''] = Inr (JList (cs @ [card]))
        \<and> get_path card [KStr ''content'', KStr ''layers'']
             = Inr (JList [JObj [(''datasetId'', JStr ''Roads_0000abc'')]])
        \<and> get_path (props (self (snd (add_map ''Roads_0000abc'' (on demo_workbook)))))
            [KStr ''workspace'', KStr ''datasets''] = Inr (JObj ds)
        \<and> ''Roads_0000abc'' \<in> fst ` set ds"
    by blast
  from sparse c before after have m2: "\<exists>cs card ds.
          get_path (props (self (snd (add_map ''Roads_0000abc'' (on sparse_workbook)))))
            [KStr ''pages'', KIdx 0, KStr ''cards''] = Inr (JList (cs @ [card]))
        \<and> get_path card [KStr ''content'', KStr ''layers'']
             = Inr (JList [JObj [(''datasetId'', JStr ''Roads_0000abc'')]])
        \<and> get_path (props (self (snd (add_map ''Roads_0000abc'' (on sparse_workbook)))))
            [KStr ''workspace'', KStr ''datasets''] = Inr (JObj ds)
        \<and> ''Roads_0000abc'' \<in> fst ` set ds"
    by (metis (no_types, lifting))
  from demo b ok have m3: "\<exists>cs card out ds v1 entry.
          aggregate 17 ''Roads_0000abc'' ''kind'' ''esriFieldTypeString'' ''count'' ''LEN''
            ''esriFieldTypeDouble''
            (Some (title_case ''bar'' @ '' Chart '' @ str_of_nat (length cs + 1))) (on demo_workbook)
            = (Inr out, v1)
        \<and> get_path (props (self (snd (add_chart 17 ''bar'' ''Roads_0000abc'' ''kind''
             ''esriFieldTypeString'' ''count'' ''LEN'' ''esriFieldTypeDouble'' (on demo_workbook)))))
            [KStr ''pages'', KIdx 0, KStr ''cards''] = Inr (JList (cs @ [card]))
        \<and> get_path card [KStr ''content'', KStr ''layers'']
             = Inr (JList [JObj [(''datasetId'', JStr out),
                                 (''chartLines'', JObj [(''mean'', JBool True)]),
                                 (''colors'', JObj [])]])
        \<and> get_path (props (self (snd (add_chart 17 ''bar'' ''Roads_0000abc'' ''kind''
             ''esriFieldTypeString'' ''count'' ''LEN'' ''esriFieldTypeDouble'' (on demo_workbook)))))
            [KStr ''workspace'', KStr ''datasets''] = Inr (JObj ds)
        \<and> out \<in> fst ` set ds
        \<and> get_path (props (self (snd (add_chart 17 ''bar'' ''Roads_0000abc'' ''kind''
             ''esriFieldTypeString'' ''count'' ''LEN'' ''esriFieldTypeDouble'' (on demo_workbook)))))
            [KStr ''workspace'', KStr ''datasets'', KStr out] = Inr entry"
    by blast
  from a b c before m1 m2 m3 show ?thesis by blast
qed

end
